theory Spec2Isabelle
  imports Main
begin

section \<open>JavaScript strings\<close>

text \<open>
  A JavaScript string is modelled as a \<open>string\<close> whose characters are code units in
  the range 0..255. \<open>String.prototype.trim\<close> removes white space and line terminators
  from both ends; in that range these are TAB, LF, VT, FF, CR, SP and NBSP.
\<close>

definition is_space :: "char \<Rightarrow> bool" where
  "is_space c = (c \<in> set [CHR 0x09, CHR 0x0A, CHR 0x0B, CHR 0x0C, CHR 0x0D, CHR '' '', CHR 0xA0])"

definition trim :: "string \<Rightarrow> string" where
  "trim s = rev (dropWhile is_space (rev (dropWhile is_space s)))"

definition upper_chars :: "char list" where
  "upper_chars = ''ABCDEFGHIJKLMNOPQRSTUVWXYZ'' @
     [CHR 0xC0, CHR 0xC1, CHR 0xC2, CHR 0xC3, CHR 0xC4, CHR 0xC5, CHR 0xC6, CHR 0xC7,
      CHR 0xC8, CHR 0xC9, CHR 0xCA, CHR 0xCB, CHR 0xCC, CHR 0xCD, CHR 0xCE, CHR 0xCF,
      CHR 0xD0, CHR 0xD1, CHR 0xD2, CHR 0xD3, CHR 0xD4, CHR 0xD5, CHR 0xD6,
      CHR 0xD8, CHR 0xD9, CHR 0xDA, CHR 0xDB, CHR 0xDC, CHR 0xDD, CHR 0xDE]"

definition lower_chars :: "char list" where
  "lower_chars = ''abcdefghijklmnopqrstuvwxyz'' @
     [CHR 0xE0, CHR 0xE1, CHR 0xE2, CHR 0xE3, CHR 0xE4, CHR 0xE5, CHR 0xE6, CHR 0xE7,
      CHR 0xE8, CHR 0xE9, CHR 0xEA, CHR 0xEB, CHR 0xEC, CHR 0xED, CHR 0xEE, CHR 0xEF,
      CHR 0xF0, CHR 0xF1, CHR 0xF2, CHR 0xF3, CHR 0xF4, CHR 0xF5, CHR 0xF6,
      CHR 0xF8, CHR 0xF9, CHR 0xFA, CHR 0xFB, CHR 0xFC, CHR 0xFD, CHR 0xFE]"

definition toLowerChar :: "char \<Rightarrow> char" where
  "toLowerChar c = (case map_of (zip upper_chars lower_chars) c of Some l \<Rightarrow> l | None \<Rightarrow> c)"

definition toLowerCase :: "string \<Rightarrow> string" where
  "toLowerCase s = map toLowerChar s"

fun startsWith :: "string \<Rightarrow> string \<Rightarrow> bool" where
  "startsWith s [] = True"
| "startsWith [] (p # ps) = False"
| "startsWith (c # cs) (p # ps) = (c = p \<and> startsWith cs ps)"

fun str_includes :: "string \<Rightarrow> string \<Rightarrow> bool" where
  "str_includes [] sub = (sub = [])"
| "str_includes (c # cs) sub = (startsWith (c # cs) sub \<or> str_includes cs sub)"

fun join :: "string \<Rightarrow> string list \<Rightarrow> string" where
  "join sep [] = []"
| "join sep [x] = x"
| "join sep (x # y # ys) = x @ sep @ join sep (y # ys)"

text \<open>
  The regular expressions of the source are sequences of literal characters and of
  character classes under \<open>+\<close>, anchored at both ends; \<open>rx_test\<close> is
  \<open>RegExp.prototype.test\<close> for such a pattern.
\<close>

datatype rx_item = Plus "char \<Rightarrow> bool" | Lit char

fun rx_test :: "rx_item list \<Rightarrow> string \<Rightarrow> bool" where
  "rx_test [] s = (s = [])"
| "rx_test (Lit c # items) s =
     (case s of [] \<Rightarrow> False | x # xs \<Rightarrow> x = c \<and> rx_test items xs)"
| "rx_test (Plus p # items) s =
     (case s of [] \<Rightarrow> False
      | x # xs \<Rightarrow> p x \<and> (rx_test items xs \<or> rx_test (Plus p # items) xs))"

text \<open>
  A member of a JSON request body: a string, or a value that is not a string, of which
  only its truthiness matters to the code (\<open>JFalsy\<close>: \<open>undefined\<close>, \<open>null\<close>, \<open>0\<close>,
  \<open>false\<close>; \<open>JTruthy\<close>: any other number, \<open>true\<close>, an object, an array).
\<close>

datatype jsval = JStr string | JFalsy | JTruthy

section \<open>Errors\<close>

text \<open>
  The error classes of \<open>utils/errorHandler.js\<close>, the plain \<open>Error\<close>, and the errors
  raised by the database driver, which carry a \<open>name\<close>, an optional \<open>code\<close>, the keys of
  \<open>keyPattern\<close>, the messages of \<open>errors\<close> and a \<open>message\<close>.
\<close>

datatype js_error =
    BadRequestError string
  | ConflictError string
  | NotFoundError string
  | Error string
  | DriverError string "nat option" "string list" "string list" string

fun err_message :: "js_error \<Rightarrow> string" where
  "err_message (BadRequestError m) = m"
| "err_message (ConflictError m) = m"
| "err_message (NotFoundError m) = m"
| "err_message (Error m) = m"
| "err_message (DriverError n c k es m) = m"

fun err_code :: "js_error \<Rightarrow> nat option" where
  "err_code (DriverError n c k es m) = c"
| "err_code _ = None"

fun err_name :: "js_error \<Rightarrow> string" where
  "err_name (DriverError n c k es m) = n"
| "err_name _ = ''Error''"

fun err_keyPattern :: "js_error \<Rightarrow> string list" where
  "err_keyPattern (DriverError n c k es m) = k"
| "err_keyPattern _ = []"

fun err_errors :: "js_error \<Rightarrow> string list" where
  "err_errors (DriverError n c k es m) = es"
| "err_errors _ = []"

fun statusCode :: "js_error \<Rightarrow> nat option" where
  "statusCode (BadRequestError m) = Some 400"
| "statusCode (ConflictError m) = Some 409"
| "statusCode (NotFoundError m) = Some 404"
| "statusCode _ = None"

section \<open>The short-link collection\<close>

text \<open>
  \<open>models/shorturl.model.js\<close>: a document has \<open>_id\<close>, \<open>full_url\<close>, \<open>short_url\<close>
  (unique index), \<open>clicks\<close> (default 0) and an optional \<open>user\<close> of type
  \<open>ObjectId\<close>. The schema declares no timestamps, so a document has no \<open>createdAt\<close>
  field. The collection is the list of its documents in insertion order. An
  \<open>ObjectId\<close> is held as its 24 lower-case hexadecimal digits.
\<close>

record shorturl =
  oid :: string
  full_url :: string
  short_url :: string
  clicks :: int
  user :: "string option"

type_synonym store = "shorturl list"

text \<open>
  The driver casts a string to an \<open>ObjectId\<close> when it consists of 24 hexadecimal
  digits, and fails on any other string; the value of the \<open>ObjectId\<close> does not depend
  on the case of the digits.
\<close>

definition is_hex :: "char \<Rightarrow> bool" where
  "is_hex c = (c \<in> set ''0123456789abcdefABCDEF'')"

definition is_object_id :: "string \<Rightarrow> bool" where
  "is_object_id v = (length v = 24 \<and> list_all is_hex v)"

definition castObjectId :: "string \<Rightarrow> string" where
  "castObjectId v = toLowerCase v"

definition cast_message :: "string \<Rightarrow> string" where
  "cast_message v =
     ''Cast to ObjectId failed for value \"'' @ v @ ''\" (type string) at path \"user\"''"

text \<open>
  The \<open>ValidationError\<close> of \<open>save()\<close> for a document whose \<open>user\<close> was assigned a
  string that is no \<open>ObjectId\<close>, and the \<open>CastError\<close> of a query on \<open>user\<close> with
  such a string.
\<close>

definition user_validation_error :: "string \<Rightarrow> js_error" where
  "user_validation_error v =
     DriverError ''ValidationError'' None [] [cast_message v]
       (''urlSchema validation failed: user: '' @ cast_message v)"

definition user_cast_error :: "string \<Rightarrow> js_error" where
  "user_cast_error v =
     DriverError ''CastError'' None [] [] (cast_message v @ '' for model \"urlSchema\"'')"

definition duplicate_key_error :: js_error where
  "duplicate_key_error =
     DriverError ''MongoServerError'' (Some 11000) [''short_url''] [] ''E11000 duplicate key error''"

text \<open>
  \<open>newUrl.save()\<close> for a document \<open>doc\<close> whose \<open>user\<close> holds the string assigned to
  it. Validation comes first: a \<open>user\<close> that is no \<open>ObjectId\<close> fails it. The \<open>fault\<close> is
  an error the driver raises for a reason outside the document and the collection's
  contents (connection loss); without one, the unique index on \<open>short_url\<close> decides.
  The result is the saved document, its \<open>user\<close> cast, and the new collection.
\<close>

definition doc_save ::
  "js_error option \<Rightarrow> shorturl \<Rightarrow> store \<Rightarrow> js_error + shorturl \<times> store" where
  "doc_save fault doc st =
     (if user doc \<noteq> None \<and> \<not> is_object_id (the (user doc)) then
        Inl (user_validation_error (the (user doc)))
      else
        (case fault of
           Some e \<Rightarrow> Inl e
         | None \<Rightarrow>
             if list_ex (\<lambda>r. short_url r = short_url doc) st then Inl duplicate_key_error
             else Inr (doc\<lparr>user := map_option castObjectId (user doc)\<rparr>,
                       st @ [doc\<lparr>user := map_option castObjectId (user doc)\<rparr>])))"

text \<open>
  \<open>findOneAndUpdate({short_url: q}, {$inc: {clicks: 1}}, {new: true})\<close>: the first
  matching document is updated in place and the updated document is returned.
\<close>

fun findOneAndUpdate :: "string \<Rightarrow> store \<Rightarrow> shorturl option \<times> store" where
  "findOneAndUpdate q [] = (None, [])"
| "findOneAndUpdate q (r # rs) =
     (if short_url r = q then (Some (r\<lparr>clicks := clicks r + 1\<rparr>), r\<lparr>clicks := clicks r + 1\<rparr> # rs)
      else (fst (findOneAndUpdate q rs), r # snd (findOneAndUpdate q rs)))"

fun findOne :: "string \<Rightarrow> store \<Rightarrow> shorturl option" where
  "findOne q [] = None"
| "findOne q (r # rs) = (if short_url r = q then Some r else findOne q rs)"

section \<open>dao/shortUrl.dao.js\<close>

definition validateSaveInputs :: "string \<Rightarrow> string \<Rightarrow> string option \<Rightarrow> js_error option" where
  "validateSaveInputs shortUrl longUrl userId =
     (if shortUrl = [] \<or> trim shortUrl = [] then
        Some (BadRequestError ''Short URL is required and must be a non-empty string'')
      else if longUrl = [] \<or> trim longUrl = [] then
        Some (BadRequestError ''Long URL is required and must be a non-empty string'')
      else if userId \<noteq> None \<and> trim (the userId) = [] then
        Some (BadRequestError ''User ID must be a non-empty string when provided'')
      else None)"

text \<open>The \<open>catch\<close> block of \<open>saveShortUrl\<close>.\<close>

definition saveShortUrl_catch :: "js_error \<Rightarrow> js_error" where
  "saveShortUrl_catch e =
     (if err_code e = Some 11000 then
        (if ''short_url'' \<in> set (err_keyPattern e) then ConflictError ''Short URL already exists''
         else ConflictError ''Duplicate entry detected'')
      else if err_name e = ''ValidationError'' then
        BadRequestError (''Validation failed: '' @ join '', '' (err_errors e))
      else if err_name e = ''CastError'' then BadRequestError ''Invalid data format provided''
      else (case e of
              BadRequestError m \<Rightarrow> e
            | ConflictError m \<Rightarrow> e
            | _ \<Rightarrow> Error (''Database operation failed: '' @ err_message e)))"

text \<open>
  \<open>saveShortUrl(shortUrl, longUrl, userId = null)\<close>; \<open>new_id\<close> is the \<open>_id\<close> the
  driver gives the new document.
\<close>

definition saveShortUrl ::
  "js_error option \<Rightarrow> string \<Rightarrow> string \<Rightarrow> string \<Rightarrow> string option \<Rightarrow> store
     \<Rightarrow> (js_error + shorturl) \<times> store" where
  "saveShortUrl fault new_id shortUrl longUrl userId st =
     (case validateSaveInputs shortUrl longUrl userId of
        Some e \<Rightarrow> (Inl (saveShortUrl_catch e), st)
      | None \<Rightarrow>
          (let newUrl = \<lparr>oid = new_id, full_url = trim longUrl, short_url = trim shortUrl,
                         clicks = 0,
                         user = (case userId of None \<Rightarrow> None
                                 | Some u \<Rightarrow> if u \<noteq> [] then Some (trim u) else None)\<rparr>
           in case doc_save fault newUrl st of
                Inl e \<Rightarrow> (Inl (saveShortUrl_catch e), st)
              | Inr (savedUrl, st') \<Rightarrow> (Inr savedUrl, st')))"

text \<open>The \<open>catch\<close> block of \<open>getShortUrl\<close>.\<close>

definition getShortUrl_catch :: "js_error \<Rightarrow> js_error" where
  "getShortUrl_catch e =
     (if err_name e = ''CastError'' then BadRequestError ''Invalid short URL format''
      else (case e of
              BadRequestError m \<Rightarrow> e
            | _ \<Rightarrow> Error (''Database query failed: '' @ err_message e)))"

text \<open>
  Commands of the driver on the short-link collection. \<open>FindOneAndUpdateInc\<close> is the
  call of \<open>getShortUrl\<close>:
  \<open>findOneAndUpdate({short_url: q}, {$inc: {clicks: 1}}, {new: true})\<close>.
  \<open>FindOneRead\<close> is \<open>findOne({short_url: q})\<close>, which the custom-link service calls.
  \<open>UpdateOneSetClicks\<close>, \<open>updateOne({short_url: q}, {$set: {clicks: n}})\<close>, is called
  nowhere in the repository: it is the driver's plain write, present so that a read
  followed by a write can be told apart from the single call. That the database carries
  out each command as one step is the driver's guarantee for one document, taken as
  given here.
\<close>

datatype db_op =
    FindOneAndUpdateInc string
  | FindOneRead string
  | UpdateOneSetClicks string int

datatype db_reply = Doc "shorturl option" | Failed js_error

fun set_clicks :: "string \<Rightarrow> int \<Rightarrow> store \<Rightarrow> store" where
  "set_clicks q n [] = []"
| "set_clicks q n (r # rs) =
     (if short_url r = q then r\<lparr>clicks := n\<rparr> # rs else r # set_clicks q n rs)"

definition db_exec :: "js_error option \<Rightarrow> db_op \<Rightarrow> store \<Rightarrow> db_reply \<times> store" where
  "db_exec fault op st =
     (case fault of
        Some e \<Rightarrow> (Failed e, st)
      | None \<Rightarrow>
          (case op of
             FindOneAndUpdateInc q \<Rightarrow>
               (Doc (fst (findOneAndUpdate q st)), snd (findOneAndUpdate q st))
           | FindOneRead q \<Rightarrow> (Doc (findOne q st), st)
           | UpdateOneSetClicks q n \<Rightarrow> (Doc (findOne q st), set_clicks q n st)))"

text \<open>
  An \<open>async\<close> function that talks to the database: it returns, throws, or sends a
  command and continues with the reply at its \<open>await\<close>.
\<close>

datatype 'a dbprog =
    Done 'a
  | Raise js_error
  | Await db_op "db_reply \<Rightarrow> 'a dbprog"

text \<open>
  Running such a function alone: the \<open>faults\<close> are the driver faults of its commands,
  in order (none once the list is used up).
\<close>

primrec run :: "'a dbprog \<Rightarrow> js_error option list \<Rightarrow> store \<Rightarrow> (js_error + 'a) \<times> store" where
  "run (Done a) = (\<lambda>faults st. (Inr a, st))"
| "run (Raise e) = (\<lambda>faults st. (Inl e, st))"
| "run (Await op k) =
     (\<lambda>faults st.
        run (k (fst (db_exec (case faults of [] \<Rightarrow> None | f # fs \<Rightarrow> f) op st)))
          (tl faults)
          (snd (db_exec (case faults of [] \<Rightarrow> None | f # fs \<Rightarrow> f) op st)))"

text \<open>
  \<open>getShortUrl(shortUrl)\<close>: \<open>Done None\<close> is the returned \<open>null\<close>. Its one \<open>await\<close> is
  the call of \<open>findOneAndUpdate\<close>.
\<close>

definition getShortUrl_prog :: "string \<Rightarrow> shorturl option dbprog" where
  "getShortUrl_prog shortUrl =
     (if shortUrl = [] \<or> trim shortUrl = [] then
        Raise (getShortUrl_catch
                 (BadRequestError ''Short URL is required and must be a non-empty string''))
      else
        Await (FindOneAndUpdateInc (trim shortUrl))
          (\<lambda>reply.
             case reply of
               Failed e \<Rightarrow> Raise (getShortUrl_catch e)
             | Doc None \<Rightarrow> Done None
             | Doc (Some url) \<Rightarrow>
                 if full_url url = [] then
                   Raise (getShortUrl_catch (Error ''Invalid URL data in database''))
                 else Done (Some url)))"

text \<open>\<open>getShortUrl\<close> run alone, with the driver fault of its command.\<close>

definition getShortUrl ::
  "js_error option \<Rightarrow> string \<Rightarrow> store \<Rightarrow> (js_error + shorturl option) \<times> store" where
  "getShortUrl fault shortUrl st = run (getShortUrl_prog shortUrl) [fault] st"

text \<open>
  Concurrent requests, as a model of execution and not a translation of a source file:
  each request is such a function; the \<open>schedule\<close> names, step by step, the request
  whose pending command the database carries out next (a step that names no request, or
  one with no pending command, does nothing). The driver does not fail.
\<close>

fun pending :: "'a dbprog \<Rightarrow> bool" where
  "pending (Await op k) = True"
| "pending _ = False"

fun interleave :: "nat list \<Rightarrow> 'a dbprog list \<Rightarrow> store \<Rightarrow> 'a dbprog list \<times> store" where
  "interleave [] ts st = (ts, st)"
| "interleave (i # schedule) ts st =
     (if i < length ts then
        (case ts ! i of
           Await op k \<Rightarrow>
             interleave schedule (ts[i := k (fst (db_exec None op st))])
               (snd (db_exec None op st))
         | _ \<Rightarrow> interleave schedule ts st)
      else interleave schedule ts st)"

section \<open>utils/helper.js: generateNanoId\<close>

text \<open>
  \<open>generateNanoId(length)\<close> for a numeric \<open>length\<close>; \<open>nanoid_out\<close> is what the
  library call \<open>nanoid(length)\<close> returns.
\<close>

definition generateNanoId :: "nat \<Rightarrow> string \<Rightarrow> js_error + string" where
  "generateNanoId len nanoid_out =
     (if len = 0 then Inl (Error ''ID generation failed: Length must be a positive number'')
      else if len > 50 then Inl (Error ''ID generation failed: Length cannot exceed 50 characters'')
      else if nanoid_out = [] \<or> length nanoid_out \<noteq> len then
        Inl (Error ''ID generation failed: Failed to generate ID with specified length'')
      else Inr nanoid_out)"

section \<open>services/ShortUrl.service.js\<close>

definition validateServiceInputs :: "string \<Rightarrow> string option \<Rightarrow> js_error option" where
  "validateServiceInputs url userId =
     (if url = [] then Some (BadRequestError ''URL is required'')
      else if trim url = [] then Some (BadRequestError ''URL must be a non-empty string'')
      else if userId \<noteq> None \<and> trim (the userId) = [] then
        Some (BadRequestError ''User ID must be a non-empty string when provided'')
      else None)"

text \<open>
  What the environment supplies to one iteration of the retry loop: the output of
  \<open>nanoid(7)\<close>, the \<open>_id\<close> of the new document and the driver fault, if any.
\<close>

record attempt_env =
  nanoid_out :: string
  new_oid :: string
  save_fault :: "js_error option"

definition maxRetries :: nat where
  "maxRetries = 3"

text \<open>
  The \<open>try\<close> block of the loop body: the error thrown in it (if any), the value of
  the variable \<open>shortUrl\<close> after it, the candidate handed to \<open>saveShortUrl\<close> (none
  when the generator threw first) and the collection.
\<close>

definition try_once ::
  "attempt_env \<Rightarrow> string \<Rightarrow> string \<Rightarrow> string option \<Rightarrow> store
     \<Rightarrow> js_error option \<times> string option \<times> string list \<times> store" where
  "try_once e url userId shortUrl st =
     (case generateNanoId 7 (nanoid_out e) of
        Inl err \<Rightarrow> (Some err, shortUrl, [], st)
      | Inr sid \<Rightarrow>
          if sid = [] then (Some (Error ''Failed to generate short URL''), Some sid, [], st)
          else
            (case saveShortUrl (save_fault e) (new_oid e) sid (trim url) (Some (trim userId)) st of
               (Inl err, st') \<Rightarrow> (Some err, Some sid, [sid], st')
             | (Inr saved, st') \<Rightarrow> (None, Some sid, [sid], st')))"

text \<open>
  The \<open>while (retryCount < maxRetries)\<close> loop of \<open>createShortUrlServiceWithUserId\<close>.
  Iteration \<open>retryCount\<close> uses \<open>env retryCount\<close>. Besides the outcome (the thrown error
  or the returned \<open>shortUrl\<close> variable, \<open>None\<close> for \<open>undefined\<close>) and the collection,
  the loop reports the candidates it handed to \<open>saveShortUrl\<close>, in order.
\<close>

function retry_loop ::
  "(nat \<Rightarrow> attempt_env) \<Rightarrow> string \<Rightarrow> string \<Rightarrow> nat \<Rightarrow> string option \<Rightarrow> string list \<Rightarrow> store
     \<Rightarrow> (js_error + string option) \<times> string list \<times> store" where
  "retry_loop env url userId retryCount shortUrl tried st =
     (if retryCount < maxRetries then
        (case try_once (env retryCount) url userId shortUrl st of
           (None, shortUrl', called, st') \<Rightarrow> (Inr shortUrl', tried @ called, st')
         | (Some error, shortUrl', called, st') \<Rightarrow>
             (if err_code error = Some 11000 \<and> retryCount + 1 < maxRetries then
                retry_loop env url userId (retryCount + 1) shortUrl' (tried @ called) st'
              else if retryCount + 1 \<ge> maxRetries then
                (Inl (ConflictError ''Unable to generate unique short URL after multiple attempts''),
                 tried @ called, st')
              else (Inl error, tried @ called, st')))
      else (Inr shortUrl, tried, st))"
  by pat_completeness auto
termination
  by (relation "measure (\<lambda>(env, url, userId, retryCount, shortUrl, tried, st). maxRetries - retryCount)")
     auto

text \<open>
  \<open>createShortUrlServiceWithUserId(url, userId)\<close>; the outer \<open>catch\<close> logs and
  rethrows.
\<close>

definition createShortUrlServiceWithUserId ::
  "(nat \<Rightarrow> attempt_env) \<Rightarrow> string \<Rightarrow> string \<Rightarrow> store
     \<Rightarrow> (js_error + string option) \<times> string list \<times> store" where
  "createShortUrlServiceWithUserId env url userId st =
     (case validateServiceInputs url (Some userId) of
        Some e \<Rightarrow> (Inl e, [], st)
      | None \<Rightarrow> retry_loop env url userId 0 None [] st)"

section \<open>HTTP layer: the redirect handler and the global error handler\<close>

text \<open>
  Response bodies: a redirect to a target, the error envelope \<open>{success: false, message}\<close>,
  and the data of the 201 answer of the custom-link handler (\<open>shortUrl\<close>, \<open>originalUrl\<close>,
  \<open>customUrl\<close>, \<open>userId\<close>, \<open>createdBy\<close>). The \<open>requestId\<close> and \<open>timestamp\<close> members, which
  depend on the clock and on \<open>Math.random\<close> only, are left out.
\<close>

datatype body =
    RedirectTo string
  | ErrorJson string
  | CustomCreated string string string string string

record response =
  res_status :: nat
  res_headers :: "(string \<times> string) list"
  res_body :: body

text \<open>
  \<open>errorHandler\<close> of \<open>utils/errorHandler.js\<close>: an \<open>AppError\<close> answers with its own
  status code, anything else with 500; the body is \<open>{success: false, message}\<close>.
\<close>

definition errorHandler :: "js_error \<Rightarrow> response" where
  "errorHandler err =
     (case statusCode err of
        Some code \<Rightarrow> \<lparr>res_status = code, res_headers = [], res_body = ErrorJson (err_message err)\<rparr>
      | None \<Rightarrow>
          \<lparr>res_status = 500, res_headers = [],
           res_body = ErrorJson (if err_message err = [] then ''Internal Server Error''
                                 else err_message err)\<rparr>)"

definition no_cache_headers :: "(string \<times> string) list" where
  "no_cache_headers =
     [(''Cache-Control'', ''no-cache, no-store, must-revalidate''),
      (''Pragma'', ''no-cache''),
      (''Expires'', ''0'')]"

text \<open>
  \<open>redirectFromShortUrl\<close> for \<open>GET /:id\<close> (\<open>code\<close> is \<open>req.params.id\<close>), followed by \<open>errorHandler\<close> where the
  handler calls \<open>next(error)\<close>. \<open>res.redirect(302, url)\<close> answers 302 with the target
  as its location.
\<close>

definition redirectFromShortUrl :: "js_error option \<Rightarrow> string \<Rightarrow> store \<Rightarrow> response \<times> store" where
  "redirectFromShortUrl fault code st =
     (if code = [] then (errorHandler (BadRequestError ''Short URL ID is required''), st)
      else if trim code = [] then (errorHandler (BadRequestError ''Invalid short URL ID format''), st)
      else
        (case getShortUrl fault (trim code) st of
           (Inl e, st') \<Rightarrow> (errorHandler e, st')
         | (Inr None, st') \<Rightarrow> (errorHandler (NotFoundError ''Short URL not found''), st')
         | (Inr (Some url), st') \<Rightarrow>
             if full_url url = [] then (errorHandler (Error ''Invalid URL data in database''), st')
             else (\<lparr>res_status = 302, res_headers = no_cache_headers,
                    res_body = RedirectTo (full_url url)\<rparr>, st')))"

section \<open>Custom short links: controller and service\<close>

text \<open>
  \<open>validateUrl\<close> of the controller; \<open>url_parses\<close> stands for the success of
  \<open>new URL(url)\<close>.
\<close>

definition validateUrl :: "(string \<Rightarrow> bool) \<Rightarrow> jsval \<Rightarrow> js_error option" where
  "validateUrl url_parses url =
     (case url of
        JFalsy \<Rightarrow> Some (BadRequestError ''URL is required'')
      | JTruthy \<Rightarrow> Some (BadRequestError ''URL must be a string'')
      | JStr s \<Rightarrow>
          if s = [] then Some (BadRequestError ''URL is required'')
          else if url_parses s then None
          else Some (BadRequestError ''Invalid URL format''))"

text \<open>The pattern \<open>/^[a-zA-Z0-9-_]+$/\<close> and the reserved words of the controller.\<close>

definition slug_char :: "char \<Rightarrow> bool" where
  "slug_char c =
     (c \<in> set ''abcdefghijklmnopqrstuvwxyzABCDEFGHIJKLMNOPQRSTUVWXYZ0123456789-_'')"

definition customUrlRegex :: "rx_item list" where
  "customUrlRegex = [Plus slug_char]"

definition reservedWords :: "string list" where
  "reservedWords = [''api'', ''admin'', ''www'', ''app'', ''create'', ''custom'', ''user'',
                    ''auth'', ''login'', ''signup'', ''register'']"

definition taken_message :: "string \<Rightarrow> string" where
  "taken_message slug =
     ''The custom URL \"'' @ slug @ ''\" is already taken. Please choose a different one.''"

text \<open>The \<open>catch\<close> block of \<open>createCustomShortUrlService\<close>.\<close>

definition createCustom_catch :: "string \<Rightarrow> js_error \<Rightarrow> js_error" where
  "createCustom_catch customUrl e =
     (case e of
        BadRequestError m \<Rightarrow> e
      | ConflictError m \<Rightarrow> e
      | _ \<Rightarrow>
          if err_code e = Some 11000 then ConflictError (taken_message (trim customUrl))
          else Error (''Failed to create custom short URL: '' @ err_message e))"

text \<open>
  \<open>createCustomShortUrlService(url, customUrl, userId)\<close>; \<open>find_fault\<close> and \<open>fault\<close> are
  the driver faults of the \<open>findOne\<close> and of the \<open>save\<close>.
\<close>

definition createCustomShortUrlService ::
  "js_error option \<Rightarrow> js_error option \<Rightarrow> string \<Rightarrow> string \<Rightarrow> string \<Rightarrow> string \<Rightarrow> store
     \<Rightarrow> (js_error + string) \<times> store" where
  "createCustomShortUrlService find_fault fault new_id url customUrl userId st =
     (case validateServiceInputs url (Some userId) of
        Some e \<Rightarrow> (Inl (createCustom_catch customUrl e), st)
      | None \<Rightarrow>
          if customUrl = [] \<or> trim customUrl = [] then
            (Inl (createCustom_catch customUrl
                    (BadRequestError ''Custom URL is required and must be a non-empty string'')), st)
          else if \<not> rx_test customUrlRegex (trim customUrl) then
            (Inl (createCustom_catch customUrl
                    (BadRequestError
                       ''Custom URL can only contain letters, numbers, hyphens, and underscores'')), st)
          else if length (trim customUrl) < 3 \<or> length (trim customUrl) > 50 then
            (Inl (createCustom_catch customUrl
                    (BadRequestError ''Custom URL must be between 3 and 50 characters long'')), st)
          else
            (case find_fault of
               Some e \<Rightarrow> (Inl (createCustom_catch customUrl e), st)
             | None \<Rightarrow>
                 (case findOne (trim customUrl) st of
                    Some existingUrl \<Rightarrow>
                      (Inl (createCustom_catch customUrl
                              (ConflictError (taken_message (trim customUrl)))), st)
                  | None \<Rightarrow>
                      (case saveShortUrl fault new_id (trim customUrl) (trim url) (Some userId) st of
                         (Inl e, st') \<Rightarrow> (Inl (createCustom_catch customUrl e), st')
                       | (Inr saved, st') \<Rightarrow> (Inr (trim customUrl), st')))))"

text \<open>\<open>process.env.APP_URL || 'http://localhost:3000/'\<close>.\<close>

definition app_base :: "string option \<Rightarrow> string" where
  "app_base app_url =
     (case app_url of None \<Rightarrow> ''http://localhost:3000/''
      | Some a \<Rightarrow> if a = [] then ''http://localhost:3000/'' else a)"

text \<open>
  The request of \<open>POST /api/shortUrl/custom\<close> after the authentication gate: the two
  body members and \<open>req.user.id\<close>, \<open>req.user.email\<close>.
\<close>

record custom_request =
  body_url :: jsval
  body_customUrl :: jsval
  user_id :: string
  user_email :: string

text \<open>\<open>createCustomShortUrl\<close>, followed by \<open>errorHandler\<close> where it calls \<open>next(error)\<close>.\<close>

definition createCustomShortUrl ::
  "(string \<Rightarrow> bool) \<Rightarrow> string option \<Rightarrow> js_error option \<Rightarrow> js_error option \<Rightarrow> string
     \<Rightarrow> custom_request \<Rightarrow> store \<Rightarrow> response \<times> store" where
  "createCustomShortUrl url_parses app_url find_fault fault new_id req st =
     (case validateUrl url_parses (body_url req) of
        Some e \<Rightarrow> (errorHandler e, st)
      | None \<Rightarrow>
          (case (body_url req, body_customUrl req) of
             (JStr url, JStr customUrl) \<Rightarrow>
               if customUrl = [] then
                 (errorHandler (BadRequestError ''Custom URL is required and must be a string''), st)
               else if length (trim customUrl) < 3 \<or> length (trim customUrl) > 50 then
                 (errorHandler
                    (BadRequestError ''Custom URL must be between 3 and 50 characters long''), st)
               else if \<not> rx_test customUrlRegex (trim customUrl) then
                 (errorHandler
                    (BadRequestError
                       ''Custom URL can only contain letters, numbers, hyphens, and underscores''), st)
               else if toLowerCase (trim customUrl) \<in> set reservedWords then
                 (errorHandler (BadRequestError ''This custom URL is reserved and cannot be used''), st)
               else if user_id req = [] then
                 (errorHandler (Error ''User authentication failed''), st)
               else
                 (case createCustomShortUrlService find_fault fault new_id url (trim customUrl)
                         (user_id req) st of
                    (Inl e, st') \<Rightarrow> (errorHandler e, st')
                  | (Inr shortUrl, st') \<Rightarrow>
                      if shortUrl = [] then
                        (errorHandler (Error ''Failed to create custom short URL''), st')
                      else
                        (\<lparr>res_status = 201, res_headers = [],
                          res_body = CustomCreated
                            (app_base app_url @ shortUrl)
                            url (trim customUrl) (user_id req) (user_email req)\<rparr>, st'))
           | _ \<Rightarrow>
               (errorHandler (BadRequestError ''Custom URL is required and must be a string''), st)))"

section \<open>Listing a user's links\<close>

text \<open>
  Times are milliseconds since the epoch. A document of the short-link collection read
  with \<open>lean()\<close> has the stored fields only; the schema has no \<open>timestamps\<close> option
  (the user schema has), so \<open>url.createdAt\<close> and \<open>url.created_at\<close> are \<open>undefined\<close>
  for every document.
\<close>

definition doc_createdAt :: "shorturl \<Rightarrow> nat option" where
  "doc_createdAt d = None"

text \<open>
  \<open>sort({createdAt: -1})\<close>: descending by key, a missing key below every value;
  documents with equal keys keep the order in which the collection is read.
\<close>

definition key_ge :: "nat option \<Rightarrow> nat option \<Rightarrow> bool" where
  "key_ge a b = (case b of None \<Rightarrow> True
                 | Some y \<Rightarrow> (case a of None \<Rightarrow> False | Some x \<Rightarrow> y \<le> x))"

fun insert_desc :: "shorturl \<Rightarrow> shorturl list \<Rightarrow> shorturl list" where
  "insert_desc x [] = [x]"
| "insert_desc x (y # ys) =
     (if key_ge (doc_createdAt x) (doc_createdAt y) then x # y # ys else y # insert_desc x ys)"

definition sort_createdAt_desc :: "shorturl list \<Rightarrow> shorturl list" where
  "sort_createdAt_desc ds = foldr insert_desc ds []"

record url_view =
  view_id :: string
  view_shortUrl :: string
  view_originalUrl :: string
  view_customUrl :: string
  view_clicks :: int
  view_createdAt :: nat

text \<open>The mapping over the documents found; \<open>now\<close> is \<open>new Date()\<close>.\<close>

definition transform_url :: "string option \<Rightarrow> nat \<Rightarrow> shorturl \<Rightarrow> url_view" where
  "transform_url app_url now url =
     \<lparr>view_id = oid url,
      view_shortUrl = app_base app_url @ short_url url,
      view_originalUrl = full_url url,
      view_customUrl = short_url url,
      view_clicks = (if clicks url = 0 then 0 else clicks url),
      view_createdAt = (case doc_createdAt url of Some t \<Rightarrow> t | None \<Rightarrow> now)\<rparr>"

text \<open>The \<open>catch\<close> block of \<open>getUserUrlsService\<close>.\<close>

definition getUserUrls_catch :: "js_error \<Rightarrow> js_error" where
  "getUserUrls_catch e =
     (case e of
        BadRequestError m \<Rightarrow> e
      | _ \<Rightarrow> Error (''Failed to retrieve user URLs: '' @ err_message e))"

definition getUserUrlsService ::
  "js_error option \<Rightarrow> string option \<Rightarrow> nat \<Rightarrow> string \<Rightarrow> store \<Rightarrow> js_error + url_view list" where
  "getUserUrlsService fault app_url now userId st =
     (if userId = [] \<or> trim userId = [] then
        Inl (getUserUrls_catch (BadRequestError ''Valid user ID is required''))
      else if \<not> is_object_id (trim userId) then
        Inl (getUserUrls_catch (user_cast_error (trim userId)))
      else
        (case fault of
           Some e \<Rightarrow> Inl (getUserUrls_catch e)
         | None \<Rightarrow>
             Inr (map (transform_url app_url now)
                    (sort_createdAt_desc
                       (filter (\<lambda>d. user d = Some (castObjectId (trim userId))) st)))))"

section \<open>The user collection and the authentication service\<close>

text \<open>
  \<open>models/user.model.js\<close>: \<open>_id\<close>, \<open>name\<close>, \<open>email\<close> (unique index), \<open>password\<close>,
  \<open>avatar\<close> and the two timestamps of \<open>timestamps: true\<close>.
\<close>

record user_doc =
  u_id :: string
  u_name :: string
  u_email :: string
  u_password :: string
  u_avatar :: string
  u_createdAt :: string
  u_updatedAt :: string

type_synonym users = "user_doc list"

text \<open>The pattern \<open>/^[^\s@]+@[^\s@]+\.[^\s@]+$/\<close>.\<close>

definition not_space_at :: "char \<Rightarrow> bool" where
  "not_space_at c = (\<not> is_space c \<and> c \<noteq> CHR ''@'')"

definition emailRegex :: "rx_item list" where
  "emailRegex = [Plus not_space_at, Lit (CHR ''@''), Plus not_space_at, Lit (CHR ''.''),
                 Plus not_space_at]"

text \<open>\<open>dao/user.dao.js\<close>: \<open>findUserByEmail\<close> and its \<open>catch\<close> block.\<close>

definition findUserByEmail_catch :: "js_error \<Rightarrow> js_error" where
  "findUserByEmail_catch e =
     (case e of
        BadRequestError m \<Rightarrow> e
      | _ \<Rightarrow>
          if err_name e = ''CastError'' then BadRequestError ''Invalid email format''
          else if err_name e = ''MongoNetworkError'' then Error ''Database connection failed''
          else Error (''Database query failed: '' @ err_message e))"

definition findUserByEmail :: "js_error option \<Rightarrow> string \<Rightarrow> users \<Rightarrow> js_error + user_doc option" where
  "findUserByEmail fault email us =
     (if email = [] \<or> trim email = [] then
        Inl (findUserByEmail_catch
               (BadRequestError ''Email is required and must be a non-empty string''))
      else if \<not> rx_test emailRegex (trim email) then
        Inl (findUserByEmail_catch (BadRequestError ''Invalid email format''))
      else
        (case fault of
           Some e \<Rightarrow> Inl (findUserByEmail_catch e)
         | None \<Rightarrow> Inr (find (\<lambda>u. u_email u = toLowerCase (trim email)) us)))"

text \<open>
  \<open>signToken\<close> of \<open>utils/helper.js\<close>; \<open>secret\<close> is \<open>process.env.JWT_SECRET\<close> and
  \<open>jwt_sign\<close> the library call \<open>jwt.sign\<close> with the options of the source.
\<close>

record token_payload =
  tp_id :: string
  tp_email :: string
  tp_name :: string

definition signToken_catch :: "js_error \<Rightarrow> js_error" where
  "signToken_catch e =
     (if str_includes (err_message e) ''secretOrPrivateKey'' then
        Error ''JWT secret configuration error''
      else if str_includes (err_message e) ''payload'' then
        Error ''Invalid token payload provided''
      else Error (''Token signing failed: '' @ err_message e))"

definition signToken ::
  "string option \<Rightarrow> (string \<Rightarrow> token_payload \<Rightarrow> js_error + string) \<Rightarrow> token_payload
     \<Rightarrow> js_error + string" where
  "signToken secret jwt_sign payload =
     (case secret of
        None \<Rightarrow> Inl (signToken_catch (Error ''JWT secret not configured''))
      | Some k \<Rightarrow>
          if k = [] then Inl (signToken_catch (Error ''JWT secret not configured''))
          else
            (case jwt_sign k payload of
               Inl e \<Rightarrow> Inl (signToken_catch e)
             | Inr token \<Rightarrow>
                 if token = [] then Inl (signToken_catch (Error ''Failed to generate token''))
                 else Inr token))"

text \<open>
  \<open>savedUser.toObject()\<close> as the list of its members, \<open>delete obj.password\<close>, and
  reading a member (\<open>undefined\<close> read as the empty string).
\<close>

definition toObject :: "user_doc \<Rightarrow> (string \<times> string) list" where
  "toObject u =
     [(''_id'', u_id u), (''name'', u_name u), (''email'', u_email u),
      (''password'', u_password u), (''avatar'', u_avatar u),
      (''createdAt'', u_createdAt u), (''updatedAt'', u_updatedAt u)]"

definition delete_key :: "string \<Rightarrow> (string \<times> string) list \<Rightarrow> (string \<times> string) list" where
  "delete_key k obj = filter (\<lambda>kv. fst kv \<noteq> k) obj"

definition member :: "(string \<times> string) list \<Rightarrow> string \<Rightarrow> string" where
  "member obj k = (case map_of obj k of Some v \<Rightarrow> v | None \<Rightarrow> [])"

text \<open>
  What the environment supplies to the authentication service: driver faults, the
  \<open>bcryptjs\<close> calls (\<open>genSalt(12)\<close> yields \<open>bcrypt_salt\<close>), the token secret and
  \<open>jwt.sign\<close>, the \<open>_id\<close> of a new user and the clock.
\<close>

record auth_env =
  env_find_fault :: "js_error option"
  env_save_fault :: "js_error option"
  bcrypt_salt :: string
  bcrypt_hash :: "string \<Rightarrow> string \<Rightarrow> string"
  bcrypt_compare :: "string \<Rightarrow> string \<Rightarrow> bool"
  jwt_secret :: "string option"
  jwt_sign :: "string \<Rightarrow> token_payload \<Rightarrow> js_error + string"
  env_new_id :: string
  env_now :: string

definition email_duplicate_key_error :: js_error where
  "email_duplicate_key_error =
     DriverError ''MongoServerError'' (Some 11000) [''email''] [] ''E11000 duplicate key error''"

definition user_save :: "js_error option \<Rightarrow> user_doc \<Rightarrow> users \<Rightarrow> js_error + users" where
  "user_save fault doc us =
     (case fault of
        Some e \<Rightarrow> Inl e
      | None \<Rightarrow>
          if list_ex (\<lambda>u. u_email u = u_email doc) us then Inl email_duplicate_key_error
          else Inr (us @ [doc]))"

text \<open>\<open>services/auth.service.js\<close>: \<open>registerUserService\<close> and its \<open>catch\<close> block.\<close>

definition register_catch :: "js_error \<Rightarrow> js_error" where
  "register_catch e =
     (case e of
        BadRequestError m \<Rightarrow> e
      | _ \<Rightarrow>
          if err_code e = Some 11000 then BadRequestError ''User with this email already exists''
          else if err_name e = ''ValidationError'' then BadRequestError ''Invalid user data provided''
          else Error (''User registration failed: '' @ err_message e))"

definition registerUserService ::
  "auth_env \<Rightarrow> jsval \<Rightarrow> jsval \<Rightarrow> jsval \<Rightarrow> users \<Rightarrow> (js_error + (string \<times> string) list) \<times> users" where
  "registerUserService env name email password us =
     (case name of
        JStr n \<Rightarrow>
          if n = [] \<or> trim n = [] then
            (Inl (register_catch
                    (BadRequestError ''Name is required and must be a non-empty string'')), us)
          else
            (case email of
               JStr e \<Rightarrow>
                 if e = [] \<or> trim e = [] then
                   (Inl (register_catch
                           (BadRequestError ''Email is required and must be a non-empty string'')), us)
                 else
                   (case password of
                      JStr p \<Rightarrow>
                        if p = [] \<or> length p < 6 then
                          (Inl (register_catch
                                  (BadRequestError
                                     ''Password is required and must be at least 6 characters long'')), us)
                        else if \<not> rx_test emailRegex (trim e) then
                          (Inl (register_catch
                                  (BadRequestError ''Please provide a valid email address'')), us)
                        else
                          (case findUserByEmail (env_find_fault env) (trim e) us of
                             Inl err \<Rightarrow> (Inl (register_catch err), us)
                           | Inr (Some userExists) \<Rightarrow>
                               (Inl (register_catch
                                       (BadRequestError ''User with this email already exists'')), us)
                           | Inr None \<Rightarrow>
                               (let hashedPassword = bcrypt_hash env p (bcrypt_salt env) in
                                if hashedPassword = [] then
                                  (Inl (register_catch (Error ''Failed to process password'')), us)
                                else
                                  (let newUser =
                                     \<lparr>u_id = env_new_id env, u_name = trim n,
                                      u_email = toLowerCase (trim e), u_password = hashedPassword,
                                      u_avatar = ''https://api.dicebear.com/7.x/initials/svg?seed='' @ trim n,
                                      u_createdAt = env_now env, u_updatedAt = env_now env\<rparr>
                                   in case signToken (jwt_secret env) (jwt_sign env)
                                             \<lparr>tp_id = u_id newUser, tp_email = u_email newUser,
                                              tp_name = u_name newUser\<rparr> of
                                        Inl err \<Rightarrow> (Inl (register_catch err), us)
                                      | Inr token \<Rightarrow>
                                          (case user_save (env_save_fault env) newUser us of
                                             Inl err \<Rightarrow> (Inl (register_catch err), us)
                                           | Inr us' \<Rightarrow>
                                               (Inr (delete_key ''password'' (toObject newUser)
                                                       @ [(''token'', token)]), us')))))
                    | _ \<Rightarrow>
                        (Inl (register_catch
                                (BadRequestError
                                   ''Password is required and must be at least 6 characters long'')), us))
             | _ \<Rightarrow>
                 (Inl (register_catch
                         (BadRequestError ''Email is required and must be a non-empty string'')), us))
      | _ \<Rightarrow>
          (Inl (register_catch
                  (BadRequestError ''Name is required and must be a non-empty string'')), us))"

text \<open>
  \<open>controllers/auth.controller.js\<close>. A failure body is \<open>{success: false, message, error}\<close>;
  the \<open>requestId\<close> and \<open>timestamp\<close> members, which depend on the clock and on
  \<open>Math.random\<close> only, are left out. The request body is the list of its members.
\<close>

datatype auth_body =
    AuthFailure string string
  | Registered "(string \<times> string) list" string
  | LoggedIn "(string \<times> string) list" string string

record auth_response =
  auth_status :: nat
  auth_cookie :: "string option"
  auth_body :: auth_body

definition body_member :: "(string \<times> jsval) list \<Rightarrow> string \<Rightarrow> jsval" where
  "body_member b k = (case map_of b k of Some v \<Rightarrow> v | None \<Rightarrow> JFalsy)"

definition public_user :: "(string \<times> string) list \<Rightarrow> (string \<times> string) list" where
  "public_user usr =
     [(''id'', member usr ''_id''), (''name'', member usr ''name''),
      (''email'', member usr ''email''), (''avatar'', member usr ''avatar''),
      (''createdAt'', member usr ''createdAt'')]"

definition registerUser_error :: "js_error \<Rightarrow> auth_response" where
  "registerUser_error error =
     (let (sc, errorCode) =
        (if str_includes (err_message error) ''already exists'' then (409, ''USER_ALREADY_EXISTS'')
         else if str_includes (err_message error) ''required''
                 \<or> str_includes (err_message error) ''invalid'' then (400, ''INVALID_INPUT'')
         else (case statusCode error of
                 Some c \<Rightarrow> (c, ''SERVICE_ERROR'')
               | None \<Rightarrow> (500, ''INTERNAL_SERVER_ERROR'')))
      in \<lparr>auth_status = sc, auth_cookie = None,
          auth_body = AuthFailure (if err_message error = [] then ''User registration failed''
                                   else err_message error) errorCode\<rparr>)"

definition registerUser :: "auth_env \<Rightarrow> (string \<times> jsval) list \<Rightarrow> users \<Rightarrow> auth_response \<times> users" where
  "registerUser env req_body us =
     (if body_member req_body ''name'' = JTruthy then
        (registerUser_error (Error ''name.substring is not a function''), us)
      else if req_body = [] then
        (\<lparr>auth_status = 400, auth_cookie = None,
          auth_body = AuthFailure ''Request body is required'' ''MISSING_REQUEST_BODY''\<rparr>, us)
      else
        (case registerUserService env (body_member req_body ''name'')
                (body_member req_body ''email'') (body_member req_body ''password'') us of
           (Inl error, us') \<Rightarrow> (registerUser_error error, us')
         | (Inr usr, us') \<Rightarrow>
             (\<lparr>auth_status = 201, auth_cookie = None,
               auth_body = Registered (public_user usr) (member usr ''token'')\<rparr>, us')))"

text \<open>\<open>loginUserService\<close> and its \<open>catch\<close> block.\<close>

definition login_catch :: "js_error \<Rightarrow> js_error" where
  "login_catch e =
     (case e of
        BadRequestError m \<Rightarrow> e
      | _ \<Rightarrow>
          if err_name e = ''CastError'' then BadRequestError ''Invalid user data''
          else Error (''User login failed: '' @ err_message e))"

definition loginUserService ::
  "auth_env \<Rightarrow> jsval \<Rightarrow> jsval \<Rightarrow> users
     \<Rightarrow> js_error + ((string \<times> string) list \<times> string \<times> string)" where
  "loginUserService env email password us =
     (case email of
        JStr e \<Rightarrow>
          if e = [] \<or> trim e = [] then
            Inl (login_catch (BadRequestError ''Email is required and must be a non-empty string''))
          else
            (case password of
               JStr p \<Rightarrow>
                 if p = [] then Inl (login_catch (BadRequestError ''Password is required''))
                 else if \<not> rx_test emailRegex (trim e) then
                   Inl (login_catch (BadRequestError ''Please provide a valid email address''))
                 else
                   (case findUserByEmail (env_find_fault env) (toLowerCase (trim e)) us of
                      Inl err \<Rightarrow> Inl (login_catch err)
                    | Inr None \<Rightarrow> Inl (login_catch (BadRequestError ''Invalid email or password''))
                    | Inr (Some found) \<Rightarrow>
                        if \<not> bcrypt_compare env p (u_password found) then
                          Inl (login_catch (BadRequestError ''Invalid email or password''))
                        else
                          (case signToken (jwt_secret env) (jwt_sign env)
                                  \<lparr>tp_id = u_id found, tp_email = u_email found, tp_name = u_name found\<rparr> of
                             Inl err \<Rightarrow> Inl (login_catch err)
                           | Inr token \<Rightarrow>
                               Inr (delete_key ''password'' (toObject found), token, env_now env)))
             | _ \<Rightarrow> Inl (login_catch (BadRequestError ''Password is required'')))
      | _ \<Rightarrow> Inl (login_catch (BadRequestError ''Email is required and must be a non-empty string'')))"

definition loginUser_error :: "js_error \<Rightarrow> auth_response" where
  "loginUser_error error =
     (let (sc, errorCode) =
        (if str_includes (err_message error) ''Invalid email or password'' then
           (401, ''INVALID_CREDENTIALS'')
         else if str_includes (err_message error) ''required''
                 \<or> str_includes (err_message error) ''invalid'' then (400, ''INVALID_INPUT'')
         else (case statusCode error of
                 Some c \<Rightarrow> (c, ''SERVICE_ERROR'')
               | None \<Rightarrow> (500, ''INTERNAL_SERVER_ERROR'')))
      in \<lparr>auth_status = sc, auth_cookie = None,
          auth_body = AuthFailure (if err_message error = [] then ''User login failed''
                                   else err_message error) errorCode\<rparr>)"

definition loginUser :: "auth_env \<Rightarrow> (string \<times> jsval) list \<Rightarrow> users \<Rightarrow> auth_response" where
  "loginUser env req_body us =
     (if req_body = [] then
        \<lparr>auth_status = 400, auth_cookie = None,
         auth_body = AuthFailure ''Request body is required'' ''MISSING_REQUEST_BODY''\<rparr>
      else
        (case loginUserService env (body_member req_body ''email'')
                (body_member req_body ''password'') us of
           Inl error \<Rightarrow> loginUser_error error
         | Inr (usr, token, loginTime) \<Rightarrow>
             \<lparr>auth_status = 200, auth_cookie = Some token,
              auth_body = LoggedIn (public_user usr) token loginTime\<rparr>))"


section \<open>The authentication gate\<close>

text \<open>
  \<open>verifyToken\<close> of \<open>utils/helper.js\<close> (\<open>jwt_verify\<close> is the library call \<open>jwt.verify\<close>
  with the options of the source) and \<open>authMiddleware\<close>. \<open>request_token\<close> is the value
  of the variable \<open>token\<close> when the middleware tests \<open>!token\<close>; \<open>cookies\<close> is
  \<open>req.cookies\<close>, \<open>None\<close> when no cookie parser has set it.
\<close>

record decoded_token =
  d_id :: string
  d_email :: string
  d_name :: string
  d_iat :: nat
  d_exp :: nat

definition verifyToken_catch :: "js_error \<Rightarrow> js_error" where
  "verifyToken_catch e =
     (if err_name e = ''TokenExpiredError'' then Error ''Token has expired''
      else if err_name e = ''JsonWebTokenError'' then Error ''Invalid token format''
      else if err_name e = ''NotBeforeError'' then Error ''Token not active yet''
      else if str_includes (err_message e) ''secretOrPrivateKey'' then
        Error ''JWT secret configuration error''
      else Error (''Token verification failed: '' @ err_message e))"

definition verifyToken ::
  "string option \<Rightarrow> (string \<Rightarrow> string \<Rightarrow> js_error + decoded_token) \<Rightarrow> string
     \<Rightarrow> js_error + decoded_token" where
  "verifyToken secret jwt_verify token =
     (if token = [] then Inl (verifyToken_catch (Error ''Token is required for verification''))
      else
        (case secret of
           None \<Rightarrow> Inl (verifyToken_catch (Error ''JWT secret not configured''))
         | Some k \<Rightarrow>
             if k = [] then Inl (verifyToken_catch (Error ''JWT secret not configured''))
             else
               (case jwt_verify token k of
                  Inl e \<Rightarrow> Inl (verifyToken_catch e)
                | Inr decoded \<Rightarrow> Inr decoded)))"

record auth_request =
  authorization :: "string option"
  cookies :: "(string \<times> string) list option"

record identity =
  id_id :: string
  id_email :: string
  id_name :: string
  id_tokenIat :: nat
  id_tokenExp :: nat

datatype gate_result = Denied nat string string | Granted identity

definition request_token :: "auth_request \<Rightarrow> string option" where
  "request_token req =
     (let token =
        (case authorization req of
           Some h \<Rightarrow> if h \<noteq> [] then Some h
                     else (case cookies req of None \<Rightarrow> None | Some cs \<Rightarrow> map_of cs ''token'')
         | None \<Rightarrow> (case cookies req of None \<Rightarrow> None | Some cs \<Rightarrow> map_of cs ''token''))
      in case token of
           Some t \<Rightarrow> if t \<noteq> [] \<and> startsWith t ''Bearer '' then Some (drop 7 t) else Some t
         | None \<Rightarrow> None)"

definition authMiddleware_catch :: "js_error \<Rightarrow> gate_result" where
  "authMiddleware_catch error =
     (if str_includes (err_message error) ''expired'' then
        Denied 401 ''Your session has expired. Please log in again.'' ''TOKEN_EXPIRED''
      else if str_includes (err_message error) ''invalid'' then
        Denied 401 ''Invalid authentication token. Please log in again.'' ''INVALID_TOKEN''
      else if str_includes (err_message error) ''malformed'' then
        Denied 401 ''Malformed authentication token. Please log in again.'' ''MALFORMED_TOKEN''
      else Denied 401 ''Authentication failed. Please log in again.'' ''AUTHENTICATION_FAILED'')"

definition authMiddleware ::
  "js_error option \<Rightarrow> string option \<Rightarrow> (string \<Rightarrow> string \<Rightarrow> js_error + decoded_token)
     \<Rightarrow> auth_request \<Rightarrow> users \<Rightarrow> gate_result" where
  "authMiddleware fault secret jwt_verify req us =
     (case request_token req of
        None \<Rightarrow>
          Denied 401 ''Authentication required. Please log in to access this resource.''
            ''NO_TOKEN_PROVIDED''
      | Some token \<Rightarrow>
          if token = [] then
            Denied 401 ''Authentication required. Please log in to access this resource.''
              ''NO_TOKEN_PROVIDED''
          else
            (case verifyToken secret jwt_verify token of
               Inl e \<Rightarrow> authMiddleware_catch e
             | Inr decoded \<Rightarrow>
                 if d_id decoded = [] \<or> d_email decoded = [] then
                   Denied 401 ''Invalid authentication token. Please log in again.''
                     ''INVALID_TOKEN''
                 else
                   (case findUserByEmail fault (d_email decoded) us of
                      Inl e \<Rightarrow> authMiddleware_catch e
                    | Inr None \<Rightarrow>
                        Denied 401 ''User account not found. Please log in again.''
                          ''USER_NOT_FOUND''
                    | Inr (Some found) \<Rightarrow>
                        Granted \<lparr>id_id = d_id decoded, id_email = d_email decoded,
                                 id_name = (if d_name decoded \<noteq> [] then d_name decoded
                                            else u_name found),
                                 id_tokenIat = d_iat decoded, id_tokenExp = d_exp decoded\<rparr>)))"

section \<open>app.js: the request the gate receives\<close>

text \<open>
  Before its routes the application mounts \<open>cors\<close>, \<open>express.json\<close>,
  \<open>express.urlencoded\<close> and a logging middleware, and no cookie parser: nothing assigns
  \<open>req.cookies\<close>, whatever \<open>Cookie\<close> header the request carries. \<open>req.headers\<close> has the
  header names in lower case.
\<close>

definition app_request :: "(string \<times> string) list \<Rightarrow> auth_request" where
  "app_request headers = \<lparr>authorization = map_of headers ''authorization'', cookies = None\<rparr>"

text \<open>The gate of the routes under \<open>/api/shortUrl\<close>, as the application runs it.\<close>

definition app_authMiddleware ::
  "js_error option \<Rightarrow> string option \<Rightarrow> (string \<Rightarrow> string \<Rightarrow> js_error + decoded_token)
     \<Rightarrow> (string \<times> string) list \<Rightarrow> users \<Rightarrow> gate_result" where
  "app_authMiddleware fault secret jwt_verify headers us =
     authMiddleware fault secret jwt_verify (app_request headers) us"

section \<open>Sample data\<close>

definition taken_doc :: shorturl where
  "taken_doc = \<lparr>oid = ''65f000000000000000000000'', full_url = ''https://example.org/'', short_url = ''abc1234'',
                 clicks = 0, user = None\<rparr>"

definition collide_then_free :: "nat \<Rightarrow> attempt_env" where
  "collide_then_free n =
     (if n = 0 then \<lparr>nanoid_out = ''abc1234'', new_oid = ''65f000000000000000000001'', save_fault = None\<rparr>
      else \<lparr>nanoid_out = ''xyz7890'', new_oid = ''65f000000000000000000002'', save_fault = None\<rparr>)"

definition other_doc :: shorturl where
  "other_doc = \<lparr>oid = ''65f000000000000000000009'', full_url = ''https://example.net/y'', short_url = ''my-link'',
                 clicks = 4, user = Some ''507f191e810c19729de860ea''\<rparr>"

definition free_env :: "nat \<Rightarrow> attempt_env" where
  "free_env n = \<lparr>nanoid_out = ''xyz7890'', new_oid = ''65f000000000000000000002'', save_fault = None\<rparr>"

definition sample_parser :: "string \<Rightarrow> bool" where
  "sample_parser u = (u = ''https://example.com/x'')"

definition sample_req :: "string \<Rightarrow> custom_request" where
  "sample_req slug = \<lparr>body_url = JStr ''https://example.com/x'', body_customUrl = JStr slug,
                        user_id = ''507f1f77bcf86cd799439011'', user_email = ''a@b.co''\<rparr>"

text \<open>
  The collection after one user created the link \<open>older01\<close> and then the link
  \<open>newer02\<close>.
\<close>

definition two_links :: store where
  "two_links =
     snd (saveShortUrl None ''65f000000000000000000002'' ''newer02'' ''https://example.com/b'' (Some ''507f1f77bcf86cd799439011'')
       (snd (saveShortUrl None ''65f000000000000000000001'' ''older01'' ''https://example.com/a'' (Some ''507f1f77bcf86cd799439011'') [])))"

definition sample_env :: auth_env where
  "sample_env =
     \<lparr>env_find_fault = None, env_save_fault = None, bcrypt_salt = ''$2a$12$salt'',
      bcrypt_hash = (\<lambda>p salt. salt @ ''#'' @ rev p),
      bcrypt_compare = (\<lambda>p h. h = ''$2a$12$salt'' @ ''#'' @ rev p),
      jwt_secret = Some ''k'',
      jwt_sign = (\<lambda>k pl. Inr (''jwt.'' @ tp_id pl @ ''.'' @ k)),
      env_new_id = ''64b000000000000000000002'', env_now = ''2024-05-01T00:00:00.000Z''\<rparr>"

definition alice :: user_doc where
  "alice = \<lparr>u_id = ''64b000000000000000000001'', u_name = ''Alice'', u_email = ''alice@example.com'',
            u_password = ''$2a$12$salt#1terces'',
            u_avatar = ''https://api.dicebear.com/7.x/initials/svg?seed=Alice'',
            u_createdAt = ''2024-01-01T00:00:00.000Z'', u_updatedAt = ''2024-01-01T00:00:00.000Z''\<rparr>"

definition sample_verify :: "string \<Rightarrow> string \<Rightarrow> js_error + decoded_token" where
  "sample_verify token key =
     (if token = ''abc.def.ghi'' \<and> key = ''k'' then
        Inr \<lparr>d_id = ''64b000000000000000000001'', d_email = ''alice@example.com'', d_name = ''Alice'',
             d_iat = 1700000000, d_exp = 1700604800\<rparr>
      else Inl (DriverError ''JsonWebTokenError'' None [] [] ''jwt malformed''))"

section \<open>Properties of the link service\<close>

subsection \<open>Strings and the collection\<close>

lemma getShortUrl_eval:
  "getShortUrl fault shortUrl st =
     (if shortUrl = [] \<or> trim shortUrl = [] then
        (Inl (getShortUrl_catch
                (BadRequestError ''Short URL is required and must be a non-empty string'')), st)
      else
        (case fault of
           Some e \<Rightarrow> (Inl (getShortUrl_catch e), st)
         | None \<Rightarrow>
             (case findOneAndUpdate (trim shortUrl) st of
                (None, st') \<Rightarrow> (Inr None, st')
              | (Some url, st') \<Rightarrow>
                  if full_url url = [] then
                    (Inl (getShortUrl_catch (Error ''Invalid URL data in database'')), st')
                  else (Inr (Some url), st'))))"
  by (simp add: getShortUrl_def getShortUrl_prog_def db_exec_def split: option.splits prod.splits)

lemma is_object_id_nonempty: "is_object_id v \<Longrightarrow> v \<noteq> []"
  by (auto simp: is_object_id_def)

lemma sample_owner_valid: "is_object_id ''507f1f77bcf86cd799439011''"
  by (simp add: is_object_id_def is_hex_def)

lemma sample_owner_cast: "castObjectId ''507f1f77bcf86cd799439011'' = ''507f1f77bcf86cd799439011''"
  by (simp add: castObjectId_def toLowerCase_def toLowerChar_def upper_chars_def lower_chars_def)

lemma sample_owner_trim: "trim ''507f1f77bcf86cd799439011'' = ''507f1f77bcf86cd799439011''"
  by (simp add: trim_def is_space_def)

lemma fou_none: "\<forall>x\<in>set st. short_url x \<noteq> q \<Longrightarrow> findOneAndUpdate q st = (None, st)"
  by (induction st) auto

lemma fou_some:
  "\<forall>x\<in>set pre. short_url x \<noteq> q \<Longrightarrow> short_url r = q \<Longrightarrow>
   findOneAndUpdate q (pre @ r # post) =
     (Some (r\<lparr>clicks := clicks r + 1\<rparr>), pre @ r\<lparr>clicks := clicks r + 1\<rparr> # post)"
  by (induction pre) auto

lemma dropWhile_id: "xs = [] \<or> \<not> P (hd xs) \<Longrightarrow> dropWhile P xs = xs"
  by (cases xs) auto

lemma last_dropWhile_ne: "dropWhile P xs \<noteq> [] \<Longrightarrow> last (dropWhile P xs) = last xs"
  by (induction xs) auto

lemma trim_hd: "trim s \<noteq> [] \<Longrightarrow> \<not> is_space (hd (trim s))"
  by (metis dropWhile_id dropWhile_eq_Cons_conv hd_Cons_tl
    last_dropWhile_ne last_rev rev.simps(1) rev_swap trim_def)

lemma trim_last: "trim s \<noteq> [] \<Longrightarrow> \<not> is_space (last (trim s))"
  by (metis hd_dropWhile hd_rev rev.simps(1) rev_rev_ident trim_def)

lemma trim_Nil: "trim [] = []"
  by (simp add: trim_def)

lemma trim_idem: "trim (trim s) = trim s"
proof (cases "trim s = []")
  case True
  have "trim [] = []" by (simp add: trim_def)
  with True show ?thesis by simp
next
  case False
  have a: "dropWhile is_space (trim s) = trim s"
    using False trim_hd by (intro dropWhile_id) simp
  have "\<not> is_space (hd (rev (trim s)))"
    using False trim_last by (simp add: hd_rev)
  then have b: "dropWhile is_space (rev (trim s)) = rev (trim s)"
    by (intro dropWhile_id) simp
  show ?thesis
    unfolding trim_def [of "trim s"] a b by simp
qed

lemma fou_fst: "fst (findOneAndUpdate q st) = map_option (\<lambda>r. r\<lparr>clicks := clicks r + 1\<rparr>) (findOne q st)"
  by (induction st) auto

lemma findOne_short_url: "findOne q st = Some r \<Longrightarrow> short_url r = q"
  by (induction st) (auto split: if_splits)

lemma fou_length: "length (snd (findOneAndUpdate q st)) = length st"
  by (induction st) auto

lemma fou_nth:
  "i < length st \<Longrightarrow>
     snd (findOneAndUpdate q st) ! i = st ! i
     \<or> (short_url (st ! i) = q \<and> snd (findOneAndUpdate q st) ! i = (st ! i)\<lparr>clicks := clicks (st ! i) + 1\<rparr>)"
  by (induction st arbitrary: i) (auto simp: nth_Cons split: nat.splits)

lemma fou_one:
  "i < length st \<Longrightarrow> j < length st \<Longrightarrow> snd (findOneAndUpdate q st) ! i \<noteq> st ! i \<Longrightarrow>
     snd (findOneAndUpdate q st) ! j \<noteq> st ! j \<Longrightarrow> i = j"
  by (induction st arbitrary: i j) (auto simp: nth_Cons split: nat.splits if_splits)

lemma getShortUrl_store:
  "snd (getShortUrl fault c st) = st \<or> snd (getShortUrl fault c st) = snd (findOneAndUpdate (trim c) st)"
  by (auto simp: getShortUrl_eval split: option.splits prod.splits)

lemma redirect_store:
  "snd (redirectFromShortUrl fault code st) = st
   \<or> snd (redirectFromShortUrl fault code st) = snd (findOneAndUpdate (trim code) st)"
  using getShortUrl_store [of fault "trim code" st]
  by (auto simp: redirectFromShortUrl_def trim_idem split: option.splits prod.splits sum.splits)

subsection \<open>The retry loop\<close>

lemma saveShortUrl_no_code: "saveShortUrl fault i s l u st = (Inl e, st') \<Longrightarrow> err_code e = None"
  by (auto simp: saveShortUrl_def saveShortUrl_catch_def Let_def
           split: option.splits sum.splits js_error.splits if_splits)

lemma generateNanoId_no_code: "generateNanoId n out = Inl e \<Longrightarrow> err_code e = None"
  by (auto simp: generateNanoId_def split: if_splits)

lemma try_once_no_code:
  "try_once e url userId shortUrl st = (Some err, sv, called, st') \<Longrightarrow> err_code err = None"
  by (auto simp: try_once_def split: sum.splits prod.splits if_splits
           dest: generateNanoId_no_code saveShortUrl_no_code)

lemma try_once_called: "try_once e url userId shortUrl st = (r, sv, called, st') \<Longrightarrow> length called \<le> 1"
  by (auto simp: try_once_def split: sum.splits prod.splits if_splits)

text \<open>
  No error that reaches the \<open>catch\<close> of the loop carries \<open>code = 11000\<close>:
  \<open>saveShortUrl\<close> has already replaced the driver's duplicate-key error by a
  \<open>ConflictError\<close>. So the loop body runs once, whatever happens.
\<close>

lemma retry_loop_single_attempt:
  "length (fst (snd (createShortUrlServiceWithUserId env url userId st))) \<le> 1"
proof (cases "validateServiceInputs url (Some userId)")
  case (Some e)
  then show ?thesis by (simp add: createShortUrlServiceWithUserId_def)
next
  case None
  obtain r sv called st' where t: "try_once (env 0) url userId None st = (r, sv, called, st')"
    by (cases "try_once (env 0) url userId None st") auto
  have c: "length called \<le> 1" using try_once_called [OF t] .
  show ?thesis
  proof (cases r)
    case None
    with t c \<open>validateServiceInputs url (Some userId) = None\<close> show ?thesis
      by (simp add: createShortUrlServiceWithUserId_def maxRetries_def)
  next
    case (Some err)
    with t have "err_code err = None" by (auto dest: try_once_no_code)
    with t c Some \<open>validateServiceInputs url (Some userId) = None\<close> show ?thesis
      by (simp add: createShortUrlServiceWithUserId_def maxRetries_def)
  qed
qed

text \<open>
  C1. The claim: on a uniqueness violation the service retries with a freshly generated
  candidate, up to 3 attempts, and fails with ``unable to generate unique identifier''
  only after the third. The code at a collection that holds \<open>abc1234\<close>, with a
  generator that yields \<open>abc1234\<close> first and the free \<open>xyz7890\<close> next: the first
  candidate collides, \<open>saveShortUrl\<close> turns the duplicate-key error into a
  \<open>ConflictError\<close> without a \<open>code\<close>, the test \<open>error.code === 11000\<close> fails, and the
  service throws ``Short URL already exists'' after one attempt, the second candidate
  never tried and nothing stored.
\<close>

theorem createShortUrl_collision_not_retried:
  "createShortUrlServiceWithUserId collide_then_free ''https://example.com/x'' ''507f1f77bcf86cd799439011'' [taken_doc]
     = (Inl (ConflictError ''Short URL already exists''), [''abc1234''], [taken_doc])"
  by (simp add: createShortUrlServiceWithUserId_def validateServiceInputs_def maxRetries_def
        try_once_def generateNanoId_def saveShortUrl_def validateSaveInputs_def doc_save_def
        saveShortUrl_catch_def duplicate_key_error_def collide_then_free_def taken_doc_def
        sample_owner_trim sample_owner_valid Let_def trim_def is_space_def)

subsection \<open>The redirect lookup\<close>

text \<open>
  C2, as stated, at the candidate code \<open>'' ''\<close> (one blank, \<open>GET /%20\<close>) and the empty
  collection: no ShortLink has the trimmed code as its \<open>short_url\<close>, yet the handler
  answers 400, not 404, because its guard rejects a code that is empty after trimming
  before any lookup.
\<close>

theorem redirect_blank_code_is_400:
  "findOne (trim '' '') [] = None
     \<and> res_status (fst (redirectFromShortUrl None '' '' [])) = 400"
  by (simp add: redirectFromShortUrl_def errorHandler_def trim_def is_space_def)

lemma getShortUrl_prog_shape:
  assumes "trim code \<noteq> []"
  shows "\<exists>k. getShortUrl_prog code = Await (FindOneAndUpdateInc (trim code)) k
             \<and> (\<forall>reply. \<not> pending (k reply))"
proof -
  from assms have "code \<noteq> []" by (auto simp: trim_def)
  with assms show ?thesis
    by (auto simp: getShortUrl_prog_def split: db_reply.splits option.splits)
qed

lemma finished_update:
  "i < length ts \<Longrightarrow> pending (ts ! i) \<Longrightarrow> \<not> pending x \<Longrightarrow>
     length (filter (\<lambda>t. \<not> pending t) (ts[i := x]))
       = Suc (length (filter (\<lambda>t. \<not> pending t) ts))"
proof (induction ts arbitrary: i)
  case Nil
  then show ?case by simp
next
  case (Cons a ts)
  then show ?case by (cases i) auto
qed

lemma increments_closed:
  assumes "\<forall>x\<in>set pre. short_url x \<noteq> q" and "short_url r = q"
  shows "((\<lambda>s. snd (findOneAndUpdate q s)) ^^ n) (pre @ r # post)
           = pre @ r\<lparr>clicks := clicks r + int n\<rparr> # post"
proof (induction n)
  case 0
  then show ?case by simp
next
  case (Suc n)
  have "short_url (r\<lparr>clicks := clicks r + int n\<rparr>) = q" using assms(2) by simp
  from fou_some [OF assms(1) this, of post] Suc show ?case
    by (simp add: algebra_simps)
qed

lemma interleave_invariant:
  assumes "P = Await (FindOneAndUpdateInc q) k" and "\<forall>reply. \<not> pending (k reply)"
  shows "(\<forall>t\<in>set ts. t = P \<or> \<not> pending t) \<Longrightarrow> interleave schedule ts st = (ts', st') \<Longrightarrow>
           length ts' = length ts
           \<and> (\<exists>m. length (filter (\<lambda>t. \<not> pending t) ts')
                     = length (filter (\<lambda>t. \<not> pending t) ts) + m
                  \<and> st' = ((\<lambda>s. snd (findOneAndUpdate q s)) ^^ m) st)"
proof (induction schedule arbitrary: ts st)
  case Nil
  then show ?case by simp
next
  case (Cons i schedule)
  show ?case
  proof (cases "i < length ts \<and> pending (ts ! i)")
    case False
    then have "interleave (i # schedule) ts st = interleave schedule ts st"
      by (cases "ts ! i") auto
    with Cons show ?thesis by simp
  next
    case True
    then have "ts ! i \<in> set ts" by simp
    with True Cons.prems(1) have p: "ts ! i = P" by blast
    let ?st = "snd (findOneAndUpdate q st)"
    let ?ts = "ts[i := k (Doc (fst (findOneAndUpdate q st)))]"
    have step: "interleave (i # schedule) ts st = interleave schedule ?ts ?st"
      using True p assms(1) by (simp add: db_exec_def)
    have inv: "\<forall>t\<in>set ?ts. t = P \<or> \<not> pending t"
      using Cons.prems(1) assms(2) by (auto dest: set_update_subset_insert [THEN subsetD])
    have cnt: "length (filter (\<lambda>t. \<not> pending t) ?ts)
                 = Suc (length (filter (\<lambda>t. \<not> pending t) ts))"
      using True assms(2) by (intro finished_update) auto
    from Cons.IH [OF inv] step Cons.prems(2)
    obtain m where l: "length ts' = length ?ts"
      and c: "length (filter (\<lambda>t. \<not> pending t) ts')
                = length (filter (\<lambda>t. \<not> pending t) ?ts) + m"
      and s: "st' = ((\<lambda>s. snd (findOneAndUpdate q s)) ^^ m) ?st"
      by auto
    have "st' = ((\<lambda>s. snd (findOneAndUpdate q s)) ^^ Suc m) st"
      unfolding s by (simp add: funpow_Suc_right del: funpow.simps)
    with l c cnt show ?thesis by (intro conjI exI [of _ "Suc m"]) auto
  qed
qed

lemma concurrent_visits:
  assumes "trim code \<noteq> []"
    and "\<forall>t\<in>set (fst (interleave schedule (replicate n (getShortUrl_prog code)) st)). \<not> pending t"
  shows "snd (interleave schedule (replicate n (getShortUrl_prog code)) st)
           = ((\<lambda>s. snd (findOneAndUpdate (trim code) s)) ^^ n) st"
proof -
  obtain k where sh: "getShortUrl_prog code = Await (FindOneAndUpdateInc (trim code)) k"
    "\<forall>reply. \<not> pending (k reply)"
    using getShortUrl_prog_shape [OF assms(1)] by auto
  obtain ts' st' where r: "interleave schedule (replicate n (getShortUrl_prog code)) st = (ts', st')"
    by (cases "interleave schedule (replicate n (getShortUrl_prog code)) st") auto
  have i: "\<forall>t\<in>set (replicate n (getShortUrl_prog code)). t = getShortUrl_prog code \<or> \<not> pending t"
    by simp
  from interleave_invariant [OF sh i r]
  obtain m where l: "length ts' = n"
    and c: "length (filter (\<lambda>t. \<not> pending t) ts')
              = length (filter (\<lambda>t. \<not> pending t) (replicate n (getShortUrl_prog code))) + m"
    and s: "st' = ((\<lambda>s. snd (findOneAndUpdate (trim code) s)) ^^ m) st"
    by auto
  have z: "filter (\<lambda>t. \<not> pending t) (replicate n (getShortUrl_prog code)) = []"
    by (simp add: sh(1))
  have "filter (\<lambda>t. \<not> pending t) ts' = ts'"
    using assms(2) r by (simp add: filter_id_conv)
  with l c z have "m = n" by simp
  with s r show ?thesis by simp
qed

text \<open>
  C2, amended. For every candidate code that is not empty after trimming, and a driver
  that does not fail. The lookup sends the database one command, the
  \<open>findOneAndUpdate\<close> with \<open>$inc: {clicks: 1}\<close> on the trimmed code, and after its reply
  sends none: there is no read followed by a write. If the collection holds a ShortLink
  whose \<open>short_url\<close> is the trimmed code (\<open>r\<close>, the first such document, its
  \<open>full_url\<close> non-empty as the schema requires), \<open>getShortUrl\<close> returns \<open>r\<close> with
  \<open>clicks\<close> one higher and leaves the collection with exactly that document replaced;
  if it holds none, \<open>getShortUrl\<close> returns \<open>null\<close>, the collection is unchanged and the
  handler answers 404. And when \<open>n\<close> visits of the code run concurrently, under every
  schedule of their commands that lets them all finish, \<open>clicks\<close> ends \<open>n\<close> higher.
  That the database carries out a command as one step is the driver's guarantee and is
  assumed by the model of schedules, not proved here.
\<close>

theorem getShortUrl_find_and_increment:
  assumes "trim code \<noteq> []"
  shows "(\<exists>k. getShortUrl_prog code = Await (FindOneAndUpdateInc (trim code)) k
              \<and> (\<forall>reply. \<not> pending (k reply)))
       \<and> (\<forall>pre r post.
            st = pre @ r # post \<and> (\<forall>x\<in>set pre. short_url x \<noteq> trim code)
              \<and> short_url r = trim code \<and> full_url r \<noteq> [] \<longrightarrow>
            getShortUrl None code st =
              (Inr (Some (r\<lparr>clicks := clicks r + 1\<rparr>)), pre @ r\<lparr>clicks := clicks r + 1\<rparr> # post))
       \<and> ((\<forall>x\<in>set st. short_url x \<noteq> trim code) \<longrightarrow>
            getShortUrl None code st = (Inr None, st)
              \<and> redirectFromShortUrl None code st
                  = (\<lparr>res_status = 404, res_headers = [], res_body = ErrorJson ''Short URL not found''\<rparr>, st))
       \<and> (\<forall>schedule n pre r post.
            st = pre @ r # post \<and> (\<forall>x\<in>set pre. short_url x \<noteq> trim code)
              \<and> short_url r = trim code
              \<and> (\<forall>t\<in>set (fst (interleave schedule (replicate n (getShortUrl_prog code)) st)).
                    \<not> pending t) \<longrightarrow>
            snd (interleave schedule (replicate n (getShortUrl_prog code)) st)
              = pre @ r\<lparr>clicks := clicks r + int n\<rparr> # post)"
proof -
  from assms have ne: "code \<noteq> []" by (auto simp: trim_def)
  have sh: "\<exists>k. getShortUrl_prog code = Await (FindOneAndUpdateInc (trim code)) k
              \<and> (\<forall>reply. \<not> pending (k reply))"
    using assms by (rule getShortUrl_prog_shape)
  have fn: "(\<forall>pre r post.
            st = pre @ r # post \<and> (\<forall>x\<in>set pre. short_url x \<noteq> trim code)
              \<and> short_url r = trim code \<and> full_url r \<noteq> [] \<longrightarrow>
            getShortUrl None code st =
              (Inr (Some (r\<lparr>clicks := clicks r + 1\<rparr>)), pre @ r\<lparr>clicks := clicks r + 1\<rparr> # post))
       \<and> ((\<forall>x\<in>set st. short_url x \<noteq> trim code) \<longrightarrow>
            getShortUrl None code st = (Inr None, st)
              \<and> redirectFromShortUrl None code st
                  = (\<lparr>res_status = 404, res_headers = [], res_body = ErrorJson ''Short URL not found''\<rparr>, st))"
    using assms ne
    by (auto simp: getShortUrl_eval redirectFromShortUrl_def trim_idem fou_none fou_some
          errorHandler_def)
  have cc: "\<forall>schedule n pre r post.
            st = pre @ r # post \<and> (\<forall>x\<in>set pre. short_url x \<noteq> trim code)
              \<and> short_url r = trim code
              \<and> (\<forall>t\<in>set (fst (interleave schedule (replicate n (getShortUrl_prog code)) st)).
                    \<not> pending t) \<longrightarrow>
            snd (interleave schedule (replicate n (getShortUrl_prog code)) st)
              = pre @ r\<lparr>clicks := clicks r + int n\<rparr> # post"
  proof (intro allI impI)
    fix schedule n pre r post
    assume h: "st = pre @ r # post \<and> (\<forall>x\<in>set pre. short_url x \<noteq> trim code)
              \<and> short_url r = trim code
              \<and> (\<forall>t\<in>set (fst (interleave schedule (replicate n (getShortUrl_prog code)) st)).
                    \<not> pending t)"
    then have fin: "\<forall>t\<in>set (fst (interleave schedule (replicate n (getShortUrl_prog code)) st)).
                    \<not> pending t"
      and d: "st = pre @ r # post" and f: "\<forall>x\<in>set pre. short_url x \<noteq> trim code"
      and m: "short_url r = trim code"
      by simp_all
    have "snd (interleave schedule (replicate n (getShortUrl_prog code)) st)
            = ((\<lambda>s. snd (findOneAndUpdate (trim code) s)) ^^ n) st"
      using assms fin by (rule concurrent_visits)
    also have "\<dots> = pre @ r\<lparr>clicks := clicks r + int n\<rparr> # post"
      unfolding d using f m by (rule increments_closed)
    finally show "snd (interleave schedule (replicate n (getShortUrl_prog code)) st)
              = pre @ r\<lparr>clicks := clicks r + int n\<rparr> # post" .
  qed
  show ?thesis
  proof (intro conjI)
    show "\<exists>k. getShortUrl_prog code = Await (FindOneAndUpdateInc (trim code)) k
              \<and> (\<forall>reply. \<not> pending (k reply))"
      by (rule sh)
    show "\<forall>pre r post.
            st = pre @ r # post \<and> (\<forall>x\<in>set pre. short_url x \<noteq> trim code)
              \<and> short_url r = trim code \<and> full_url r \<noteq> [] \<longrightarrow>
            getShortUrl None code st =
              (Inr (Some (r\<lparr>clicks := clicks r + 1\<rparr>)), pre @ r\<lparr>clicks := clicks r + 1\<rparr> # post)"
      using fn by (rule conjunct1)
    show "(\<forall>x\<in>set st. short_url x \<noteq> trim code) \<longrightarrow>
            getShortUrl None code st = (Inr None, st)
              \<and> redirectFromShortUrl None code st
                  = (\<lparr>res_status = 404, res_headers = [], res_body = ErrorJson ''Short URL not found''\<rparr>, st)"
      using fn by (rule conjunct2)
    show "\<forall>schedule n pre r post.
            st = pre @ r # post \<and> (\<forall>x\<in>set pre. short_url x \<noteq> trim code)
              \<and> short_url r = trim code
              \<and> (\<forall>t\<in>set (fst (interleave schedule (replicate n (getShortUrl_prog code)) st)).
                    \<not> pending t) \<longrightarrow>
            snd (interleave schedule (replicate n (getShortUrl_prog code)) st)
              = pre @ r\<lparr>clicks := clicks r + int n\<rparr> # post"
      by (rule cc)
  qed
qed

theorem getShortUrl_find_and_increment_witness:
  "getShortUrl None '' abc1234 '' [taken_doc, other_doc]
     = (Inr (Some (taken_doc\<lparr>clicks := 1\<rparr>)), [taken_doc\<lparr>clicks := 1\<rparr>, other_doc])
   \<and> redirectFromShortUrl None ''nothere'' [taken_doc, other_doc]
     = (\<lparr>res_status = 404, res_headers = [], res_body = ErrorJson ''Short URL not found''\<rparr>,
        [taken_doc, other_doc])
   \<and> snd (interleave [1, 0] (replicate 2 (getShortUrl_prog ''abc1234'')) [taken_doc, other_doc])
     = [taken_doc\<lparr>clicks := 2\<rparr>, other_doc]"
proof -
  have t1: "trim '' abc1234 '' = ''abc1234''" by (simp add: trim_def is_space_def)
  have t2: "trim ''nothere'' = ''nothere''" by (simp add: trim_def is_space_def)
  have t3: "trim ''abc1234'' = ''abc1234''" by (simp add: trim_def is_space_def)
  have n1: "trim '' abc1234 '' \<noteq> []" unfolding t1 by simp
  have n2: "trim ''nothere'' \<noteq> []" unfolding t2 by simp
  have n3: "trim ''abc1234'' \<noteq> []" unfolding t3 by simp
  have a: "[taken_doc, other_doc] = [] @ taken_doc # [other_doc]
             \<and> (\<forall>x\<in>set []. short_url x \<noteq> trim '' abc1234 '')
             \<and> short_url taken_doc = trim '' abc1234 '' \<and> full_url taken_doc \<noteq> []"
    unfolding t1 by (simp add: taken_doc_def)
  have b: "\<forall>x\<in>set [taken_doc, other_doc]. short_url x \<noteq> trim ''nothere''"
    unfolding t2 by (simp add: taken_doc_def other_doc_def)
  have fin: "\<forall>t\<in>set (fst (interleave [1, 0] (replicate 2 (getShortUrl_prog ''abc1234''))
                              [taken_doc, other_doc])). \<not> pending t"
    by (simp add: numeral_2_eq_2 getShortUrl_prog_def t3 db_exec_def taken_doc_def other_doc_def)
  have c: "[taken_doc, other_doc] = [] @ taken_doc # [other_doc]
             \<and> (\<forall>x\<in>set []. short_url x \<noteq> trim ''abc1234'')
             \<and> short_url taken_doc = trim ''abc1234''
             \<and> (\<forall>t\<in>set (fst (interleave [1, 0] (replicate 2 (getShortUrl_prog ''abc1234''))
                              [taken_doc, other_doc])). \<not> pending t)"
    using fin unfolding t3 by (simp add: taken_doc_def)
  from getShortUrl_find_and_increment [OF n1, of "[taken_doc, other_doc]"] a
  have "getShortUrl None '' abc1234 '' [taken_doc, other_doc]
     = (Inr (Some (taken_doc\<lparr>clicks := clicks taken_doc + 1\<rparr>)),
        [] @ taken_doc\<lparr>clicks := clicks taken_doc + 1\<rparr> # [other_doc])"
    by blast
  moreover from getShortUrl_find_and_increment [OF n2, of "[taken_doc, other_doc]"] b
  have "redirectFromShortUrl None ''nothere'' [taken_doc, other_doc]
     = (\<lparr>res_status = 404, res_headers = [], res_body = ErrorJson ''Short URL not found''\<rparr>,
        [taken_doc, other_doc])"
    by blast
  moreover from getShortUrl_find_and_increment [OF n3, of "[taken_doc, other_doc]"] c
  have "snd (interleave [1, 0] (replicate 2 (getShortUrl_prog ''abc1234'')) [taken_doc, other_doc])
     = [] @ taken_doc\<lparr>clicks := clicks taken_doc + int 2\<rparr> # [other_doc]"
    by blast
  ultimately show ?thesis by (simp add: taken_doc_def)
qed

text \<open>
  C3. A visit \<open>GET /:code\<close> that finds a ShortLink (\<open>short_url\<close> and \<open>full_url\<close> non-empty,
  as the schema requires) is answered with status 302 and the target \<open>full_url\<close>, and the
  response carries \<open>Cache-Control: no-cache, no-store, must-revalidate\<close>,
  \<open>Pragma: no-cache\<close> and \<open>Expires: 0\<close>.
\<close>

theorem redirect_302_no_cache:
  assumes "findOne (trim code) st = Some r" and "short_url r \<noteq> []" and "full_url r \<noteq> []"
  shows "fst (redirectFromShortUrl None code st) =
           \<lparr>res_status = 302, res_headers = no_cache_headers, res_body = RedirectTo (full_url r)\<rparr>"
proof -
  from assms(1) have "short_url r = trim code" by (rule findOne_short_url)
  with assms(2) have t: "trim code \<noteq> []" by simp
  then have c: "code \<noteq> []" by (auto simp: trim_def)
  have "fst (findOneAndUpdate (trim code) st) = Some (r\<lparr>clicks := clicks r + 1\<rparr>)"
    using assms(1) by (simp add: fou_fst)
  then show ?thesis
    using t c assms(3)
    by (auto simp: redirectFromShortUrl_def getShortUrl_eval trim_idem split: prod.splits)
qed


theorem redirect_302_no_cache_witness:
  "fst (redirectFromShortUrl None ''my-link'' [taken_doc, other_doc]) =
     \<lparr>res_status = 302,
      res_headers = [(''Cache-Control'', ''no-cache, no-store, must-revalidate''),
                     (''Pragma'', ''no-cache''), (''Expires'', ''0'')],
      res_body = RedirectTo ''https://example.net/y''\<rparr>"
proof -
  have t: "trim ''my-link'' = ''my-link''" by (simp add: trim_def is_space_def)
  have a: "findOne (trim ''my-link'') [taken_doc, other_doc] = Some other_doc"
    unfolding t by (simp add: taken_doc_def other_doc_def)
  have b: "short_url other_doc \<noteq> []" and c: "full_url other_doc \<noteq> []"
    by (simp_all add: other_doc_def)
  from redirect_302_no_cache [OF a b c] show ?thesis
    by (simp add: no_cache_headers_def other_doc_def)
qed

text \<open>
  C9. Whatever the code and whatever the driver does, a redirect visit leaves the
  collection's length, and the \<open>_id\<close>, \<open>full_url\<close>, \<open>short_url\<close> and \<open>user\<close> of every
  document, as they were; a document whose \<open>short_url\<close> is not the trimmed code is
  unchanged altogether; and at most one document changes at all.
\<close>

theorem redirect_changes_only_clicks:
  "length (snd (redirectFromShortUrl fault code st)) = length st
   \<and> (\<forall>i<length st.
         oid (snd (redirectFromShortUrl fault code st) ! i) = oid (st ! i)
       \<and> full_url (snd (redirectFromShortUrl fault code st) ! i) = full_url (st ! i)
       \<and> short_url (snd (redirectFromShortUrl fault code st) ! i) = short_url (st ! i)
       \<and> user (snd (redirectFromShortUrl fault code st) ! i) = user (st ! i)
       \<and> (short_url (st ! i) \<noteq> trim code \<longrightarrow> snd (redirectFromShortUrl fault code st) ! i = st ! i))
   \<and> (\<forall>i<length st. \<forall>j<length st.
         snd (redirectFromShortUrl fault code st) ! i \<noteq> st ! i
       \<and> snd (redirectFromShortUrl fault code st) ! j \<noteq> st ! j \<longrightarrow> i = j)"
proof -
  consider (same) "snd (redirectFromShortUrl fault code st) = st"
    | (upd) "snd (redirectFromShortUrl fault code st) = snd (findOneAndUpdate (trim code) st)"
    using redirect_store by blast
  then show ?thesis
  proof cases
    case same
    then show ?thesis by simp
  next
    case upd
    have a: "\<forall>i<length st.
         oid (snd (findOneAndUpdate (trim code) st) ! i) = oid (st ! i)
       \<and> full_url (snd (findOneAndUpdate (trim code) st) ! i) = full_url (st ! i)
       \<and> short_url (snd (findOneAndUpdate (trim code) st) ! i) = short_url (st ! i)
       \<and> user (snd (findOneAndUpdate (trim code) st) ! i) = user (st ! i)
       \<and> (short_url (st ! i) \<noteq> trim code \<longrightarrow> snd (findOneAndUpdate (trim code) st) ! i = st ! i)"
    proof (intro allI impI)
      fix i assume "i < length st"
      from fou_nth [OF this, of "trim code"] show
        "oid (snd (findOneAndUpdate (trim code) st) ! i) = oid (st ! i)
       \<and> full_url (snd (findOneAndUpdate (trim code) st) ! i) = full_url (st ! i)
       \<and> short_url (snd (findOneAndUpdate (trim code) st) ! i) = short_url (st ! i)
       \<and> user (snd (findOneAndUpdate (trim code) st) ! i) = user (st ! i)
       \<and> (short_url (st ! i) \<noteq> trim code \<longrightarrow> snd (findOneAndUpdate (trim code) st) ! i = st ! i)"
        by auto
    qed
    have b: "\<forall>i<length st. \<forall>j<length st.
         snd (findOneAndUpdate (trim code) st) ! i \<noteq> st ! i
       \<and> snd (findOneAndUpdate (trim code) st) ! j \<noteq> st ! j \<longrightarrow> i = j"
      using fou_one by blast
    show ?thesis unfolding upd using a b fou_length by simp
  qed
qed


theorem redirect_changes_only_clicks_witness:
  "snd (redirectFromShortUrl None ''abc1234'' [taken_doc, other_doc]) ! 1 = other_doc
   \<and> full_url (snd (redirectFromShortUrl None ''abc1234'' [taken_doc, other_doc]) ! 0)
       = ''https://example.org/''
   \<and> clicks (snd (redirectFromShortUrl None ''abc1234'' [taken_doc, other_doc]) ! 0) = 1"
proof -
  have t: "trim ''abc1234'' = ''abc1234''" by (simp add: trim_def is_space_def)
  have l: "(0::nat) < length [taken_doc, other_doc]" "(1::nat) < length [taken_doc, other_doc]"
    by simp_all
  have n: "short_url ([taken_doc, other_doc] ! 1) \<noteq> trim ''abc1234''"
    unfolding t by (simp add: other_doc_def)
  from redirect_changes_only_clicks [of None "''abc1234''" "[taken_doc, other_doc]"] l n
  have "snd (redirectFromShortUrl None ''abc1234'' [taken_doc, other_doc]) ! 1
          = [taken_doc, other_doc] ! 1"
    and "full_url (snd (redirectFromShortUrl None ''abc1234'' [taken_doc, other_doc]) ! 0)
          = full_url ([taken_doc, other_doc] ! 0)"
    by blast+
  moreover have "clicks (snd (redirectFromShortUrl None ''abc1234'' [taken_doc, other_doc]) ! 0) = 1"
    by (simp add: redirectFromShortUrl_def getShortUrl_eval t taken_doc_def)
  ultimately show ?thesis by (simp add: taken_doc_def)
qed

subsection \<open>Creation followed by a visit\<close>

lemma create_success:
  assumes "createShortUrlServiceWithUserId env url uid st = (Inr res, tried, st')"
  shows "\<exists>c. res = Some c \<and> trim c \<noteq> [] \<and> trim url \<noteq> []
           \<and> \<not> list_ex (\<lambda>r. short_url r = trim c) st
           \<and> st' = st @ [\<lparr>oid = new_oid (env 0), full_url = trim (trim url), short_url = trim c,
                            clicks = 0, user = Some (castObjectId (trim (trim uid)))\<rparr>]"
proof -
  from assms have v: "validateServiceInputs url (Some uid) = None"
    by (auto simp: createShortUrlServiceWithUserId_def split: option.splits)
  obtain r sv called st1 where t: "try_once (env 0) url uid None st = (r, sv, called, st1)"
    by (cases "try_once (env 0) url uid None st") auto
  have "r = None"
  proof (rule ccontr)
    assume "r \<noteq> None"
    then obtain err where e: "r = Some err" by auto
    with t have "err_code err = None" by (auto dest: try_once_no_code)
    with assms v t e show False
      by (simp add: createShortUrlServiceWithUserId_def maxRetries_def)
  qed
  with assms v t have r: "res = sv" "st' = st1"
    by (simp_all add: createShortUrlServiceWithUserId_def maxRetries_def)
  from v have u: "trim url \<noteq> []"
    by (auto simp: validateServiceInputs_def split: if_splits)
  from t \<open>r = None\<close> show ?thesis
    unfolding r
    by (auto simp: try_once_def saveShortUrl_def validateSaveInputs_def doc_save_def Let_def u trim_Nil
             split: sum.splits prod.splits option.splits if_splits)
qed


text \<open>
  C4. If \<open>createShortUrlServiceWithUserId\<close> succeeds on \<open>u\<close> and returns the code \<open>c\<close>,
  then a visit of \<open>c\<close> on the resulting collection is answered with a redirect to the
  trimmed \<open>u\<close>; the collection holds exactly one document with that code, its \<open>clicks\<close>
  is 0 before the visit and 1 after it.
\<close>

theorem create_then_redirect_roundtrip:
  assumes "createShortUrlServiceWithUserId env u owner st = (Inr (Some c), tried, st1)"
  shows "fst (redirectFromShortUrl None c st1) =
           \<lparr>res_status = 302, res_headers = no_cache_headers, res_body = RedirectTo (trim u)\<rparr>
       \<and> map clicks (filter (\<lambda>r. short_url r = trim c) st1) = [0]
       \<and> map clicks (filter (\<lambda>r. short_url r = trim c) (snd (redirectFromShortUrl None c st1))) = [1]"
proof -
  define doc where "doc = \<lparr>oid = new_oid (env 0), full_url = trim (trim u), short_url = trim c,
                            clicks = 0, user = Some (castObjectId (trim (trim owner)))\<rparr>"
  from create_success [OF assms] have c: "trim c \<noteq> []" and u: "trim u \<noteq> []"
    and fresh: "\<forall>x\<in>set st. short_url x \<noteq> trim c" and st1: "st1 = st @ [doc]"
    by (auto simp: doc_def list_ex_iff)
  from c have c': "c \<noteq> []" by (auto simp: trim_Nil)
  have f: "findOneAndUpdate (trim c) st1 = (Some (doc\<lparr>clicks := 1\<rparr>), st @ [doc\<lparr>clicks := 1\<rparr>])"
    unfolding st1 using fou_some [OF fresh, of doc "[]"] by (simp add: doc_def)
  have g: "filter (\<lambda>r. short_url r = trim c) st = []"
    using fresh by (simp add: filter_empty_conv)
  have r: "redirectFromShortUrl None c st1 =
      (\<lparr>res_status = 302, res_headers = no_cache_headers, res_body = RedirectTo (trim u)\<rparr>,
       st @ [doc\<lparr>clicks := 1\<rparr>])"
    using c c' u f by (simp add: redirectFromShortUrl_def getShortUrl_eval trim_idem doc_def)
  show ?thesis
    unfolding r by (simp add: st1 g) (simp add: doc_def)
qed

theorem create_then_redirect_roundtrip_witness:
  "createShortUrlServiceWithUserId free_env '' https://example.com/x'' ''507f1f77bcf86cd799439011'' [taken_doc]
     = (Inr (Some ''xyz7890''), [''xyz7890''],
        [taken_doc, \<lparr>oid = ''65f000000000000000000002'', full_url = ''https://example.com/x'', short_url = ''xyz7890'',
                      clicks = 0, user = Some ''507f1f77bcf86cd799439011''\<rparr>])
   \<and> fst (redirectFromShortUrl None ''xyz7890''
        [taken_doc, \<lparr>oid = ''65f000000000000000000002'', full_url = ''https://example.com/x'', short_url = ''xyz7890'',
                      clicks = 0, user = Some ''507f1f77bcf86cd799439011''\<rparr>])
     = \<lparr>res_status = 302, res_headers = no_cache_headers,
        res_body = RedirectTo ''https://example.com/x''\<rparr>"
proof -
  have h: "createShortUrlServiceWithUserId free_env '' https://example.com/x'' ''507f1f77bcf86cd799439011'' [taken_doc]
     = (Inr (Some ''xyz7890''), [''xyz7890''],
        [taken_doc, \<lparr>oid = ''65f000000000000000000002'', full_url = ''https://example.com/x'', short_url = ''xyz7890'',
                      clicks = 0, user = Some ''507f1f77bcf86cd799439011''\<rparr>])"
    by (simp add: createShortUrlServiceWithUserId_def validateServiceInputs_def maxRetries_def
        try_once_def generateNanoId_def saveShortUrl_def validateSaveInputs_def doc_save_def
        free_env_def taken_doc_def sample_owner_trim sample_owner_valid sample_owner_cast
        trim_def is_space_def Let_def)
  have t: "trim '' https://example.com/x'' = ''https://example.com/x''"
    by (simp add: trim_def is_space_def)
  from create_then_redirect_roundtrip [OF h] h show ?thesis
    unfolding t by simp
qed

subsection \<open>Custom short links\<close>

lemma rx_plus: "rx_test [Plus p] s = (s \<noteq> [] \<and> list_all p s)"
  by (induction s) (auto split: list.splits)


lemma customUrlRegex_test: "rx_test customUrlRegex s = (s \<noteq> [] \<and> list_all slug_char s)"
  unfolding customUrlRegex_def by (rule rx_plus)

lemma findOne_None_iff: "(findOne q st = None) = (\<not> list_ex (\<lambda>r. short_url r = q) st)"
  by (induction st) auto

lemma trim_nonempty: "trim s \<noteq> [] \<Longrightarrow> s \<noteq> []"
  by (auto simp: trim_def)

lemma service_custom_fresh:
  assumes "trim u \<noteq> []" and "is_object_id (trim uid)" and "t = trim t" and "t \<noteq> []"
    and "list_all slug_char t" and "3 \<le> length t" and "length t \<le> 50"
    and "\<not> list_ex (\<lambda>r. short_url r = t) st"
  shows "createCustomShortUrlService None None new_id u t uid st =
           (Inr t, st @ [\<lparr>oid = new_id, full_url = trim u, short_url = t, clicks = 0,
                           user = Some (castObjectId (trim uid))\<rparr>])"
proof -
  have ti: "trim uid \<noteq> []" using assms(2) by (rule is_object_id_nonempty)
  have u: "u \<noteq> []" and i: "uid \<noteq> []" using assms(1) ti by (auto dest: trim_nonempty)
  have tt: "trim t = t" using assms(3) by simp
  have f: "findOne t st = None" using assms(8) by (simp add: findOne_None_iff)
  have rx: "rx_test customUrlRegex t" using assms(4,5) by (simp add: customUrlRegex_test)
  have d: "doc_save None \<lparr>oid = new_id, full_url = trim u, short_url = t, clicks = 0,
                           user = Some (trim uid)\<rparr> st
             = Inr (\<lparr>oid = new_id, full_url = trim u, short_url = t, clicks = 0,
                           user = Some (castObjectId (trim uid))\<rparr>,
                    st @ [\<lparr>oid = new_id, full_url = trim u, short_url = t, clicks = 0,
                           user = Some (castObjectId (trim uid))\<rparr>])"
    using assms(2,8) by (simp add: doc_save_def)
  have s: "saveShortUrl None new_id t (trim u) (Some uid) st =
             (Inr \<lparr>oid = new_id, full_url = trim u, short_url = t, clicks = 0,
                           user = Some (castObjectId (trim uid))\<rparr>,
              st @ [\<lparr>oid = new_id, full_url = trim u, short_url = t, clicks = 0,
                           user = Some (castObjectId (trim uid))\<rparr>])"
    using assms(1,4) ti i d by (simp add: saveShortUrl_def validateSaveInputs_def tt trim_idem Let_def)
  show ?thesis
    using assms(1,4,6,7) ti u rx f s
    by (simp add: createCustomShortUrlService_def validateServiceInputs_def tt)
qed

lemma service_custom_bad_owner:
  assumes "trim u \<noteq> []" and "trim uid \<noteq> []" and "\<not> is_object_id (trim uid)"
    and "t = trim t" and "t \<noteq> []"
    and "list_all slug_char t" and "3 \<le> length t" and "length t \<le> 50"
    and "\<not> list_ex (\<lambda>r. short_url r = t) st"
  shows "createCustomShortUrlService None None new_id u t uid st =
           (Inl (BadRequestError (''Validation failed: '' @ cast_message (trim uid))), st)"
proof -
  have u: "u \<noteq> []" and i: "uid \<noteq> []" using assms(1,2) by (auto dest: trim_nonempty)
  have tt: "trim t = t" using assms(4) by simp
  have f: "findOne t st = None" using assms(9) by (simp add: findOne_None_iff)
  have rx: "rx_test customUrlRegex t" using assms(5,6) by (simp add: customUrlRegex_test)
  have s: "saveShortUrl None new_id t (trim u) (Some uid) st =
             (Inl (BadRequestError (''Validation failed: '' @ cast_message (trim uid))), st)"
    using assms(1,2,3,5) i
    by (simp add: saveShortUrl_def validateSaveInputs_def tt trim_idem Let_def doc_save_def
          user_validation_error_def saveShortUrl_catch_def)
  show ?thesis
    using assms(1,2,5,7,8) u rx f s
    by (simp add: createCustomShortUrlService_def validateServiceInputs_def tt createCustom_catch_def)
qed

lemma service_custom_taken:
  assumes "trim u \<noteq> []" and "trim uid \<noteq> []" and "t = trim t" and "t \<noteq> []"
    and "list_all slug_char t" and "3 \<le> length t" and "length t \<le> 50"
    and "list_ex (\<lambda>r. short_url r = t) st"
  shows "createCustomShortUrlService None None new_id u t uid st =
           (Inl (ConflictError (taken_message t)), st)"
proof -
  have u: "u \<noteq> []" using assms(1) by (auto dest: trim_nonempty)
  have tt: "trim t = t" using assms(3) by simp
  have f: "findOne t st \<noteq> None" using assms(8) by (simp add: findOne_None_iff)
  have rx: "rx_test customUrlRegex t" using assms(4,5) by (simp add: customUrlRegex_test)
  show ?thesis
    using assms(1,2,4,6,7) u rx f
    by (auto simp: createCustomShortUrlService_def validateServiceInputs_def tt createCustom_catch_def)
qed

text \<open>
  C5, as stated, fails in two ways. The slug \<open>ADMIN\<close> has length 5, matches the pattern
  and is not a member of the reserved-word set, yet it is rejected with 400: the
  controller compares the lower-cased slug with the reserved words. The slug
  \<open>'' abc ''\<close> does not match the pattern, yet it is accepted: the controller trims
  the slug first, persists \<open>abc\<close> and returns \<open>abc\<close>.
\<close>

theorem custom_slug_case_and_trim:
  "''ADMIN'' \<notin> set reservedWords \<and> list_all slug_char ''ADMIN''
   \<and> fst (createCustomShortUrl sample_parser None None None ''65f000000000000000000005'' (sample_req ''ADMIN'') [])
       = \<lparr>res_status = 400, res_headers = [],
          res_body = ErrorJson ''This custom URL is reserved and cannot be used''\<rparr>
   \<and> \<not> list_all slug_char '' abc ''
   \<and> createCustomShortUrl sample_parser None None None ''65f000000000000000000005'' (sample_req '' abc '') []
       = (\<lparr>res_status = 201, res_headers = [],
           res_body = CustomCreated ''http://localhost:3000/abc'' ''https://example.com/x'' ''abc''
                        ''507f1f77bcf86cd799439011'' ''a@b.co''\<rparr>,
          [\<lparr>oid = ''65f000000000000000000005'', full_url = ''https://example.com/x'', short_url = ''abc'', clicks = 0,
             user = Some ''507f1f77bcf86cd799439011''\<rparr>])"
  by (simp add: createCustomShortUrl_def sample_req_def sample_parser_def validateUrl_def
        reservedWords_def slug_char_def customUrlRegex_def toLowerCase_def toLowerChar_def
        upper_chars_def lower_chars_def trim_def is_space_def errorHandler_def
        createCustomShortUrlService_def validateServiceInputs_def saveShortUrl_def
        validateSaveInputs_def doc_save_def app_base_def Let_def is_object_id_def is_hex_def
        castObjectId_def)

text \<open>
  C5, amended. For a request whose URL parses and whose owner id is an \<open>ObjectId\<close>, and
  a driver that does not fail: the custom-link handler answers 400 and persists nothing
  unless the slug is a string whose trimmed form has length in [3,50], consists of
  letters, digits, hyphens and underscores, and in lower case is not a reserved word;
  if the trimmed slug passes and a ShortLink with that \<open>short_url\<close> exists, it answers
  409 and persists nothing; otherwise it appends
  \<open>{full_url: trimmed url, short_url: trimmed slug, clicks: 0, user: owner}\<close> and answers
  201 with the trimmed slug.
\<close>

theorem custom_create_validation:
  assumes "url_parses u" and "trim u \<noteq> []" and "is_object_id (trim uid)"
  shows
   "(\<not> (3 \<le> length (trim slug) \<and> length (trim slug) \<le> 50 \<and> list_all slug_char (trim slug)
         \<and> toLowerCase (trim slug) \<notin> set reservedWords) \<longrightarrow>
       res_status (fst (createCustomShortUrl url_parses app None None new_id
          \<lparr>body_url = JStr u, body_customUrl = JStr slug, user_id = uid, user_email = em\<rparr> st)) = 400
     \<and> snd (createCustomShortUrl url_parses app None None new_id
          \<lparr>body_url = JStr u, body_customUrl = JStr slug, user_id = uid, user_email = em\<rparr> st) = st)
  \<and> (3 \<le> length (trim slug) \<and> length (trim slug) \<le> 50 \<and> list_all slug_char (trim slug)
         \<and> toLowerCase (trim slug) \<notin> set reservedWords
         \<and> list_ex (\<lambda>r. short_url r = trim slug) st \<longrightarrow>
       res_status (fst (createCustomShortUrl url_parses app None None new_id
          \<lparr>body_url = JStr u, body_customUrl = JStr slug, user_id = uid, user_email = em\<rparr> st)) = 409
     \<and> snd (createCustomShortUrl url_parses app None None new_id
          \<lparr>body_url = JStr u, body_customUrl = JStr slug, user_id = uid, user_email = em\<rparr> st) = st)
  \<and> (3 \<le> length (trim slug) \<and> length (trim slug) \<le> 50 \<and> list_all slug_char (trim slug)
         \<and> toLowerCase (trim slug) \<notin> set reservedWords
         \<and> \<not> list_ex (\<lambda>r. short_url r = trim slug) st \<longrightarrow>
       createCustomShortUrl url_parses app None None new_id
          \<lparr>body_url = JStr u, body_customUrl = JStr slug, user_id = uid, user_email = em\<rparr> st
       = (\<lparr>res_status = 201, res_headers = [],
           res_body = CustomCreated (app_base app @ trim slug) u (trim slug) uid em\<rparr>,
          st @ [\<lparr>oid = new_id, full_url = trim u, short_url = trim slug, clicks = 0,
                 user = Some (castObjectId (trim uid))\<rparr>]))
  \<and> createCustomShortUrl url_parses app None None new_id
          \<lparr>body_url = JStr u, body_customUrl = JFalsy, user_id = uid, user_email = em\<rparr> st
       = (\<lparr>res_status = 400, res_headers = [],
           res_body = ErrorJson ''Custom URL is required and must be a string''\<rparr>, st)
  \<and> createCustomShortUrl url_parses app None None new_id
          \<lparr>body_url = JStr u, body_customUrl = JTruthy, user_id = uid, user_email = em\<rparr> st
       = (\<lparr>res_status = 400, res_headers = [],
           res_body = ErrorJson ''Custom URL is required and must be a string''\<rparr>, st)"
proof -
  have ti: "trim uid \<noteq> []" using assms(3) by (rule is_object_id_nonempty)
  have u: "u \<noteq> []" and i: "uid \<noteq> []" using assms(2) ti by (auto dest: trim_nonempty)
  have v: "validateUrl url_parses (JStr u) = None" using assms(1) u by (simp add: validateUrl_def)
  have tt: "trim slug = trim (trim slug)" by (simp add: trim_idem)
  show ?thesis
  proof (intro conjI impI)
    assume "\<not> (3 \<le> length (trim slug) \<and> length (trim slug) \<le> 50 \<and> list_all slug_char (trim slug)
         \<and> toLowerCase (trim slug) \<notin> set reservedWords)"
    then have "slug = [] \<or> length (trim slug) < 3 \<or> length (trim slug) > 50
        \<or> \<not> rx_test customUrlRegex (trim slug) \<or> toLowerCase (trim slug) \<in> set reservedWords"
      by (auto simp: customUrlRegex_test)
    then show "res_status (fst (createCustomShortUrl url_parses app None None new_id
          \<lparr>body_url = JStr u, body_customUrl = JStr slug, user_id = uid, user_email = em\<rparr> st)) = 400"
      and "snd (createCustomShortUrl url_parses app None None new_id
          \<lparr>body_url = JStr u, body_customUrl = JStr slug, user_id = uid, user_email = em\<rparr> st) = st"
      using v by (auto simp: createCustomShortUrl_def errorHandler_def)
  next
    assume a: "3 \<le> length (trim slug) \<and> length (trim slug) \<le> 50 \<and> list_all slug_char (trim slug)
         \<and> toLowerCase (trim slug) \<notin> set reservedWords
         \<and> list_ex (\<lambda>r. short_url r = trim slug) st"
    then have ne: "trim slug \<noteq> []" by auto
    then have s: "slug \<noteq> []" by (auto dest: trim_nonempty)
    have rx: "rx_test customUrlRegex (trim slug)" using a ne by (simp add: customUrlRegex_test)
    have c: "createCustomShortUrlService None None new_id u (trim slug) uid st =
           (Inl (ConflictError (taken_message (trim slug))), st)"
      using a ne by (intro service_custom_taken assms ti tt) auto
    show "res_status (fst (createCustomShortUrl url_parses app None None new_id
          \<lparr>body_url = JStr u, body_customUrl = JStr slug, user_id = uid, user_email = em\<rparr> st)) = 409"
      and "snd (createCustomShortUrl url_parses app None None new_id
          \<lparr>body_url = JStr u, body_customUrl = JStr slug, user_id = uid, user_email = em\<rparr> st) = st"
      using v a s rx i c by (simp_all add: createCustomShortUrl_def errorHandler_def)
  next
    assume a: "3 \<le> length (trim slug) \<and> length (trim slug) \<le> 50 \<and> list_all slug_char (trim slug)
         \<and> toLowerCase (trim slug) \<notin> set reservedWords
         \<and> \<not> list_ex (\<lambda>r. short_url r = trim slug) st"
    then have ne: "trim slug \<noteq> []" by auto
    then have s: "slug \<noteq> []" by (auto dest: trim_nonempty)
    have rx: "rx_test customUrlRegex (trim slug)" using a ne by (simp add: customUrlRegex_test)
    have c: "createCustomShortUrlService None None new_id u (trim slug) uid st =
           (Inr (trim slug), st @ [\<lparr>oid = new_id, full_url = trim u, short_url = trim slug, clicks = 0,
                           user = Some (castObjectId (trim uid))\<rparr>])"
      using a ne by (intro service_custom_fresh assms tt) auto
    show "createCustomShortUrl url_parses app None None new_id
          \<lparr>body_url = JStr u, body_customUrl = JStr slug, user_id = uid, user_email = em\<rparr> st
       = (\<lparr>res_status = 201, res_headers = [],
           res_body = CustomCreated (app_base app @ trim slug) u (trim slug) uid em\<rparr>,
          st @ [\<lparr>oid = new_id, full_url = trim u, short_url = trim slug, clicks = 0,
                 user = Some (castObjectId (trim uid))\<rparr>])"
      using v a s rx i c ne by (simp add: createCustomShortUrl_def)
  next
    show "createCustomShortUrl url_parses app None None new_id
          \<lparr>body_url = JStr u, body_customUrl = JFalsy, user_id = uid, user_email = em\<rparr> st
       = (\<lparr>res_status = 400, res_headers = [],
           res_body = ErrorJson ''Custom URL is required and must be a string''\<rparr>, st)"
      using v by (simp add: createCustomShortUrl_def errorHandler_def)
  next
    show "createCustomShortUrl url_parses app None None new_id
          \<lparr>body_url = JStr u, body_customUrl = JTruthy, user_id = uid, user_email = em\<rparr> st
       = (\<lparr>res_status = 400, res_headers = [],
           res_body = ErrorJson ''Custom URL is required and must be a string''\<rparr>, st)"
      using v by (simp add: createCustomShortUrl_def errorHandler_def)
  qed
qed

theorem custom_create_validation_witness:
  "res_status (fst (createCustomShortUrl sample_parser None None None ''65f000000000000000000005'' (sample_req ''ab'')
       [taken_doc, other_doc])) = 400
   \<and> res_status (fst (createCustomShortUrl sample_parser None None None ''65f000000000000000000005'' (sample_req ''my-link'')
       [taken_doc, other_doc])) = 409
   \<and> createCustomShortUrl sample_parser None None None ''65f000000000000000000005'' (sample_req ''New_one'')
       [taken_doc, other_doc]
     = (\<lparr>res_status = 201, res_headers = [],
         res_body = CustomCreated ''http://localhost:3000/New_one'' ''https://example.com/x''
                      ''New_one'' ''507f1f77bcf86cd799439011'' ''a@b.co''\<rparr>,
        [taken_doc, other_doc,
         \<lparr>oid = ''65f000000000000000000005'', full_url = ''https://example.com/x'', short_url = ''New_one'', clicks = 0,
            user = Some ''507f1f77bcf86cd799439011''\<rparr>])"
proof -
  have p: "sample_parser ''https://example.com/x''" by (simp add: sample_parser_def)
  have tu: "trim ''https://example.com/x'' = ''https://example.com/x''"
    and ti: "trim ''507f1f77bcf86cd799439011'' = ''507f1f77bcf86cd799439011''" and t1: "trim ''ab'' = ''ab''"
    and t2: "trim ''my-link'' = ''my-link''" and t3: "trim ''New_one'' = ''New_one''"
    by (simp_all add: trim_def is_space_def)
  have u: "trim ''https://example.com/x'' \<noteq> []"
    unfolding tu by simp
  have i: "is_object_id (trim ''507f1f77bcf86cd799439011'')"
    unfolding ti by (rule sample_owner_valid)
  have l3: "toLowerCase ''New_one'' = ''new_one''" and l2: "toLowerCase ''my-link'' = ''my-link''"
    by (simp_all add: toLowerCase_def toLowerChar_def upper_chars_def lower_chars_def)
  have a: "\<not> (3 \<le> length (trim ''ab'') \<and> length (trim ''ab'') \<le> 50
             \<and> list_all slug_char (trim ''ab'') \<and> toLowerCase (trim ''ab'') \<notin> set reservedWords)"
    unfolding t1 by simp
  have b: "3 \<le> length (trim ''my-link'') \<and> length (trim ''my-link'') \<le> 50
             \<and> list_all slug_char (trim ''my-link'')
             \<and> toLowerCase (trim ''my-link'') \<notin> set reservedWords
             \<and> list_ex (\<lambda>r. short_url r = trim ''my-link'') [taken_doc, other_doc]"
    unfolding t2 l2 by (simp add: slug_char_def reservedWords_def other_doc_def)
  have c: "3 \<le> length (trim ''New_one'') \<and> length (trim ''New_one'') \<le> 50
             \<and> list_all slug_char (trim ''New_one'')
             \<and> toLowerCase (trim ''New_one'') \<notin> set reservedWords
             \<and> \<not> list_ex (\<lambda>r. short_url r = trim ''New_one'') [taken_doc, other_doc]"
    unfolding t3 l3 by (simp add: slug_char_def reservedWords_def other_doc_def taken_doc_def)
  from custom_create_validation [where url_parses = sample_parser and u = "''https://example.com/x''"
      and uid = "''507f1f77bcf86cd799439011''" and slug = "''ab''" and app = None and new_id = "''65f000000000000000000005''"
      and em = "''a@b.co''" and st = "[taken_doc, other_doc]", OF p u i] a
  have "res_status (fst (createCustomShortUrl sample_parser None None None ''65f000000000000000000005'' (sample_req ''ab'')
       [taken_doc, other_doc])) = 400"
    unfolding sample_req_def by blast
  moreover
  from custom_create_validation [where url_parses = sample_parser and u = "''https://example.com/x''"
      and uid = "''507f1f77bcf86cd799439011''" and slug = "''my-link''" and app = None and new_id = "''65f000000000000000000005''"
      and em = "''a@b.co''" and st = "[taken_doc, other_doc]", OF p u i] b
  have "res_status (fst (createCustomShortUrl sample_parser None None None ''65f000000000000000000005'' (sample_req ''my-link'')
       [taken_doc, other_doc])) = 409"
    unfolding sample_req_def by blast
  moreover
  from custom_create_validation [where url_parses = sample_parser and u = "''https://example.com/x''"
      and uid = "''507f1f77bcf86cd799439011''" and slug = "''New_one''" and app = None and new_id = "''65f000000000000000000005''"
      and em = "''a@b.co''" and st = "[taken_doc, other_doc]", OF p u i] c
  have "createCustomShortUrl sample_parser None None None ''65f000000000000000000005'' (sample_req ''New_one'')
       [taken_doc, other_doc]
     = (\<lparr>res_status = 201, res_headers = [],
         res_body = CustomCreated (app_base None @ trim ''New_one'') ''https://example.com/x''
                      (trim ''New_one'') ''507f1f77bcf86cd799439011'' ''a@b.co''\<rparr>,
        [taken_doc, other_doc] @
         [\<lparr>oid = ''65f000000000000000000005'', full_url = trim ''https://example.com/x'', short_url = trim ''New_one'',
            clicks = 0, user = Some (castObjectId (trim ''507f1f77bcf86cd799439011''))\<rparr>])"
    unfolding sample_req_def by blast
  ultimately show ?thesis
    unfolding tu ti t3 sample_owner_cast by (simp add: app_base_def)
qed

subsection \<open>Listing a user's links\<close>

text \<open>
  C8. The claim: the links of the owner are listed newest first, each with its record's
  creation timestamp. The code, for an owner who created \<open>older01\<close> and then
  \<open>newer02\<close>: the documents have no \<open>createdAt\<close>, the sort compares equal keys and the
  list comes back in insertion order, \<open>older01\<close> first; and \<open>createdAt\<close> of every entry
  is the time of the request (1000 in one call, 2000 in the next), not a time of
  creation.
\<close>

theorem getUserUrls_order_and_createdAt:
  "getUserUrlsService None None 1000 ''507f1f77bcf86cd799439011'' two_links =
     Inr [\<lparr>view_id = ''65f000000000000000000001'', view_shortUrl = ''http://localhost:3000/older01'',
            view_originalUrl = ''https://example.com/a'', view_customUrl = ''older01'',
            view_clicks = 0, view_createdAt = 1000\<rparr>,
          \<lparr>view_id = ''65f000000000000000000002'', view_shortUrl = ''http://localhost:3000/newer02'',
            view_originalUrl = ''https://example.com/b'', view_customUrl = ''newer02'',
            view_clicks = 0, view_createdAt = 1000\<rparr>]
   \<and> getUserUrlsService None None 2000 ''507f1f77bcf86cd799439011'' two_links =
     Inr [\<lparr>view_id = ''65f000000000000000000001'', view_shortUrl = ''http://localhost:3000/older01'',
            view_originalUrl = ''https://example.com/a'', view_customUrl = ''older01'',
            view_clicks = 0, view_createdAt = 2000\<rparr>,
          \<lparr>view_id = ''65f000000000000000000002'', view_shortUrl = ''http://localhost:3000/newer02'',
            view_originalUrl = ''https://example.com/b'', view_customUrl = ''newer02'',
            view_clicks = 0, view_createdAt = 2000\<rparr>]"
  by (simp add: getUserUrlsService_def two_links_def saveShortUrl_def validateSaveInputs_def
        doc_save_def Let_def sample_owner_trim sample_owner_valid sample_owner_cast
        trim_def is_space_def sort_createdAt_desc_def doc_createdAt_def
        key_ge_def transform_url_def app_base_def)

section \<open>Properties of the authentication service\<close>

lemma body_member_nonempty: "body_member b k = JStr s \<Longrightarrow> b \<noteq> []"
  by (auto simp: body_member_def)

text \<open>
  C6. A login whose email is well formed and whose password is not empty fails in the
  same way when no user has the email and when the user exists but the password does
  not match the stored hash: both answers are 401 with the message
  ``Invalid email or password'' and the code \<open>INVALID_CREDENTIALS\<close>, and they are equal.
\<close>

theorem login_failures_indistinguishable:
  assumes "body_member b1 ''email'' = JStr e1" and "body_member b1 ''password'' = JStr p1"
    and "body_member b2 ''email'' = JStr e2" and "body_member b2 ''password'' = JStr p2"
    and "trim e1 \<noteq> []" and "rx_test emailRegex (trim e1)" and "p1 \<noteq> []"
    and "trim e2 \<noteq> []" and "rx_test emailRegex (trim e2)" and "p2 \<noteq> []"
    and "findUserByEmail (env_find_fault env1) (toLowerCase (trim e1)) us1 = Inr None"
    and "findUserByEmail (env_find_fault env2) (toLowerCase (trim e2)) us2 = Inr (Some u)"
    and "\<not> bcrypt_compare env2 p2 (u_password u)"
  shows "loginUser env1 b1 us1 =
           \<lparr>auth_status = 401, auth_cookie = None,
            auth_body = AuthFailure ''Invalid email or password'' ''INVALID_CREDENTIALS''\<rparr>
       \<and> loginUser env2 b2 us2 = loginUser env1 b1 us1"
proof -
  have i: "str_includes ''Invalid email or password'' ''Invalid email or password''" by simp
  have n1: "e1 \<noteq> []" and n2: "e2 \<noteq> []" using assms(5,8) by (auto simp: trim_def)
  have s1: "loginUserService env1 (JStr e1) (JStr p1) us1 =
              Inl (BadRequestError ''Invalid email or password'')"
    using assms(5,6,7,11) n1 by (simp add: loginUserService_def login_catch_def)
  have s2: "loginUserService env2 (JStr e2) (JStr p2) us2 =
              Inl (BadRequestError ''Invalid email or password'')"
    using assms(8,9,10,12,13) n2 by (simp add: loginUserService_def login_catch_def)
  have r: "loginUser_error (BadRequestError ''Invalid email or password'') =
           \<lparr>auth_status = 401, auth_cookie = None,
            auth_body = AuthFailure ''Invalid email or password'' ''INVALID_CREDENTIALS''\<rparr>"
    unfolding loginUser_error_def using i by simp
  have b1: "b1 \<noteq> []" and b2: "b2 \<noteq> []"
    using assms(1,3) by (auto dest: body_member_nonempty)
  show ?thesis
    using b1 b2 by (simp add: loginUser_def assms(1-4) s1 s2 r)
qed

theorem login_failures_indistinguishable_witness:
  "loginUser sample_env [(''email'', JStr ''nobody@example.com''), (''password'', JStr ''secret1'')] [alice]
     = \<lparr>auth_status = 401, auth_cookie = None,
        auth_body = AuthFailure ''Invalid email or password'' ''INVALID_CREDENTIALS''\<rparr>
   \<and> loginUser sample_env [(''email'', JStr '' Alice@Example.com''), (''password'', JStr ''wrong'')] [alice]
     = \<lparr>auth_status = 401, auth_cookie = None,
        auth_body = AuthFailure ''Invalid email or password'' ''INVALID_CREDENTIALS''\<rparr>"
proof -
  have t1: "trim ''nobody@example.com'' = ''nobody@example.com''"
    and t2: "trim '' Alice@Example.com'' = ''Alice@Example.com''"
    by (simp_all add: trim_def is_space_def)
  have l1: "toLowerCase ''nobody@example.com'' = ''nobody@example.com''"
    and l2: "toLowerCase ''Alice@Example.com'' = ''alice@example.com''"
    by (simp_all add: toLowerCase_def toLowerChar_def upper_chars_def lower_chars_def)
  have t3: "trim ''nobody@example.com'' \<noteq> []" and t4: "trim '' Alice@Example.com'' \<noteq> []"
    unfolding t1 t2 by simp_all
  have r1: "rx_test emailRegex (trim ''nobody@example.com'')"
    unfolding t1 by (simp add: emailRegex_def not_space_at_def is_space_def)
  have r2: "rx_test emailRegex (trim '' Alice@Example.com'')"
    unfolding t2 by (simp add: emailRegex_def not_space_at_def is_space_def)
  have r3: "rx_test emailRegex ''alice@example.com''"
    by (simp add: emailRegex_def not_space_at_def is_space_def)
  have f1: "findUserByEmail (env_find_fault sample_env) (toLowerCase (trim ''nobody@example.com'')) [alice]
              = Inr None"
    unfolding t1 l1 using r1 [unfolded t1]
    by (simp add: findUserByEmail_def t1 l1 sample_env_def alice_def)
  have f2: "findUserByEmail (env_find_fault sample_env) (toLowerCase (trim '' Alice@Example.com'')) [alice]
              = Inr (Some alice)"
    unfolding t2 l2 using r3
    by (simp add: findUserByEmail_def trim_def is_space_def toLowerCase_def toLowerChar_def
          upper_chars_def lower_chars_def sample_env_def alice_def)
  have w: "\<not> bcrypt_compare sample_env ''wrong'' (u_password alice)"
    by (simp add: sample_env_def alice_def)
  have m: "body_member [(''email'', JStr ''nobody@example.com''), (''password'', JStr ''secret1'')] ''email''
             = JStr ''nobody@example.com''"
     "body_member [(''email'', JStr ''nobody@example.com''), (''password'', JStr ''secret1'')] ''password''
             = JStr ''secret1''"
     "body_member [(''email'', JStr '' Alice@Example.com''), (''password'', JStr ''wrong'')] ''email''
             = JStr '' Alice@Example.com''"
     "body_member [(''email'', JStr '' Alice@Example.com''), (''password'', JStr ''wrong'')] ''password''
             = JStr ''wrong''"
    by (simp_all add: body_member_def)
  have p: "''secret1'' \<noteq> []" "''wrong'' \<noteq> []" by simp_all
  from login_failures_indistinguishable [OF m(1) m(2) m(3) m(4) t3 r1 p(1) t4 r2 p(2) f1 f2 w]
  show ?thesis by simp
qed


subsection \<open>Registration\<close>

lemma findUserByEmail_trimmed:
  assumes "trim e \<noteq> []" and "rx_test emailRegex (trim e)"
  shows "findUserByEmail None (trim e) us = Inr (find (\<lambda>u. u_email u = toLowerCase (trim e)) us)"
  using assms by (simp add: findUserByEmail_def trim_idem)

text \<open>
  C7, as stated, at a request with an empty name for the email of the stored user
  \<open>alice\<close>: a user with the normalized email exists, yet the answer is 400
  (\<open>INVALID_INPUT\<close>), not 409, because the input validation precedes the lookup.
\<close>

theorem register_name_guard_precedes_conflict:
  "toLowerCase (trim (u_email alice)) = toLowerCase (trim ''alice@example.com'')
   \<and> registerUser sample_env
        [(''name'', JStr []), (''email'', JStr ''alice@example.com''), (''password'', JStr ''secret1'')]
        [alice]
     = (\<lparr>auth_status = 400, auth_cookie = None,
         auth_body = AuthFailure ''Name is required and must be a non-empty string''
                       ''INVALID_INPUT''\<rparr>, [alice])"
  by (simp add: registerUser_def registerUserService_def body_member_def register_catch_def
        registerUser_error_def alice_def trim_def is_space_def toLowerCase_def toLowerChar_def
        upper_chars_def lower_chars_def)

text \<open>
  C7, amended. For a request that passes the input validation (name not blank, email
  well formed, password of at least 6 characters), a lookup that does not fail and a
  collection whose emails are stored normalized: if a user with the normalized
  requested email exists, registration answers 409 (\<open>USER_ALREADY_EXISTS\<close>) and stores
  nothing; if none exists and hashing, signing and saving succeed, it appends the user
  with \<open>password\<close> the salted hash, and answers 201 with the user's public members and
  the signed token; the service's result has no \<open>password\<close> member.
\<close>

theorem register_conflict_and_success:
  assumes "body_member b ''name'' = JStr n" and "trim n \<noteq> []"
    and "body_member b ''email'' = JStr e" and "trim e \<noteq> []" and "rx_test emailRegex (trim e)"
    and "body_member b ''password'' = JStr p" and "6 \<le> length p"
    and "env_find_fault env = None"
    and "\<forall>u\<in>set us. u_email u = toLowerCase (trim (u_email u))"
  shows "((\<exists>u\<in>set us. toLowerCase (trim (u_email u)) = toLowerCase (trim e)) \<longrightarrow>
            registerUser env b us =
              (\<lparr>auth_status = 409, auth_cookie = None,
                auth_body = AuthFailure ''User with this email already exists''
                              ''USER_ALREADY_EXISTS''\<rparr>, us))
       \<and> ((\<forall>u\<in>set us. toLowerCase (trim (u_email u)) \<noteq> toLowerCase (trim e))
            \<and> env_save_fault env = None \<and> bcrypt_hash env p (bcrypt_salt env) \<noteq> []
            \<and> signToken (jwt_secret env) (jwt_sign env)
                  \<lparr>tp_id = env_new_id env, tp_email = toLowerCase (trim e), tp_name = trim n\<rparr>
                = Inr token \<longrightarrow>
            registerUser env b us =
              (\<lparr>auth_status = 201, auth_cookie = None,
                auth_body = Registered
                  [(''id'', env_new_id env), (''name'', trim n), (''email'', toLowerCase (trim e)),
                   (''avatar'', ''https://api.dicebear.com/7.x/initials/svg?seed='' @ trim n),
                   (''createdAt'', env_now env)] token\<rparr>,
               us @ [\<lparr>u_id = env_new_id env, u_name = trim n, u_email = toLowerCase (trim e),
                      u_password = bcrypt_hash env p (bcrypt_salt env),
                      u_avatar = ''https://api.dicebear.com/7.x/initials/svg?seed='' @ trim n,
                      u_createdAt = env_now env, u_updatedAt = env_now env\<rparr>])
          \<and> (\<exists>obj. fst (registerUserService env (JStr n) (JStr e) (JStr p) us) = Inr obj
                  \<and> ''password'' \<notin> fst ` set obj \<and> map_of obj ''token'' = Some token))"
proof -
  have n: "n \<noteq> []" and e: "e \<noteq> []" and p: "p \<noteq> []" "\<not> length p < 6"
    using assms(2,4,7) by (auto simp: trim_def)
  have bne: "b \<noteq> []" using assms(1) by (rule body_member_nonempty)
  have f: "findUserByEmail (env_find_fault env) (trim e) us
             = Inr (find (\<lambda>u. u_email u = toLowerCase (trim e)) us)"
    unfolding assms(8) using assms(4,5) by (rule findUserByEmail_trimmed)
  have a: "str_includes ''User with this email already exists'' ''already exists''" by simp
  show ?thesis
  proof (intro conjI impI)
    assume "\<exists>u\<in>set us. toLowerCase (trim (u_email u)) = toLowerCase (trim e)"
    then obtain u where "u \<in> set us" "u_email u = toLowerCase (trim e)"
      using assms(9) by metis
    then have "find (\<lambda>u. u_email u = toLowerCase (trim e)) us \<noteq> None"
      by (auto simp: find_None_iff)
    then obtain x where x: "find (\<lambda>u. u_email u = toLowerCase (trim e)) us = Some x" by auto
    have s: "registerUserService env (JStr n) (JStr e) (JStr p) us
               = (Inl (BadRequestError ''User with this email already exists''), us)"
      using n e p assms(2,4,5) f x by (simp add: registerUserService_def register_catch_def)
    have r: "registerUser_error (BadRequestError ''User with this email already exists'')
               = \<lparr>auth_status = 409, auth_cookie = None,
                auth_body = AuthFailure ''User with this email already exists''
                              ''USER_ALREADY_EXISTS''\<rparr>"
      unfolding registerUser_error_def using a by simp
    show "registerUser env b us =
              (\<lparr>auth_status = 409, auth_cookie = None,
                auth_body = AuthFailure ''User with this email already exists''
                              ''USER_ALREADY_EXISTS''\<rparr>, us)"
      using bne by (simp add: registerUser_def assms(1,3,6) s r)
  next
    assume h: "(\<forall>u\<in>set us. toLowerCase (trim (u_email u)) \<noteq> toLowerCase (trim e))
            \<and> env_save_fault env = None \<and> bcrypt_hash env p (bcrypt_salt env) \<noteq> []
            \<and> signToken (jwt_secret env) (jwt_sign env)
                  \<lparr>tp_id = env_new_id env, tp_email = toLowerCase (trim e), tp_name = trim n\<rparr>
                = Inr token"
    then have fresh: "\<forall>u\<in>set us. u_email u \<noteq> toLowerCase (trim e)"
      using assms(9) by metis
    then have x: "find (\<lambda>u. u_email u = toLowerCase (trim e)) us = None"
      by (auto simp: find_None_iff)
    have sv: "\<not> list_ex (\<lambda>u. u_email u = toLowerCase (trim e)) us"
      using fresh by (simp add: list_ex_iff)
    have s: "registerUserService env (JStr n) (JStr e) (JStr p) us
               = (Inr (delete_key ''password''
                         (toObject \<lparr>u_id = env_new_id env, u_name = trim n, u_email = toLowerCase (trim e),
                      u_password = bcrypt_hash env p (bcrypt_salt env),
                      u_avatar = ''https://api.dicebear.com/7.x/initials/svg?seed='' @ trim n,
                      u_createdAt = env_now env, u_updatedAt = env_now env\<rparr>) @ [(''token'', token)]),
                  us @ [\<lparr>u_id = env_new_id env, u_name = trim n, u_email = toLowerCase (trim e),
                      u_password = bcrypt_hash env p (bcrypt_salt env),
                      u_avatar = ''https://api.dicebear.com/7.x/initials/svg?seed='' @ trim n,
                      u_createdAt = env_now env, u_updatedAt = env_now env\<rparr>])"
      using n e p assms(2,4,5) f x h sv
      by (simp add: registerUserService_def Let_def user_save_def)
    show "registerUser env b us =
              (\<lparr>auth_status = 201, auth_cookie = None,
                auth_body = Registered
                  [(''id'', env_new_id env), (''name'', trim n), (''email'', toLowerCase (trim e)),
                   (''avatar'', ''https://api.dicebear.com/7.x/initials/svg?seed='' @ trim n),
                   (''createdAt'', env_now env)] token\<rparr>,
               us @ [\<lparr>u_id = env_new_id env, u_name = trim n, u_email = toLowerCase (trim e),
                      u_password = bcrypt_hash env p (bcrypt_salt env),
                      u_avatar = ''https://api.dicebear.com/7.x/initials/svg?seed='' @ trim n,
                      u_createdAt = env_now env, u_updatedAt = env_now env\<rparr>])"
      using bne
      by (simp add: registerUser_def assms(1,3,6) s public_user_def member_def delete_key_def
            toObject_def)
    show "\<exists>obj. fst (registerUserService env (JStr n) (JStr e) (JStr p) us) = Inr obj
                  \<and> ''password'' \<notin> fst ` set obj \<and> map_of obj ''token'' = Some token"
      unfolding s by (simp add: delete_key_def toObject_def)
  qed
qed

theorem register_conflict_and_success_witness:
  "registerUser sample_env
     [(''name'', JStr ''Bob''), (''email'', JStr '' alice@example.com''), (''password'', JStr ''secret1'')]
     [alice]
   = (\<lparr>auth_status = 409, auth_cookie = None,
       auth_body = AuthFailure ''User with this email already exists'' ''USER_ALREADY_EXISTS''\<rparr>,
      [alice])
   \<and> auth_status (fst (registerUser sample_env
     [(''name'', JStr ''Bob''), (''email'', JStr ''bob@example.com''), (''password'', JStr ''secret1'')]
     [alice])) = 201
   \<and> map u_password (snd (registerUser sample_env
     [(''name'', JStr ''Bob''), (''email'', JStr ''bob@example.com''), (''password'', JStr ''secret1'')]
     [alice])) = [''$2a$12$salt#1terces'', ''$2a$12$salt#1terces'']"
proof -
  have t1: "trim ''Bob'' = ''Bob''" and t2: "trim '' alice@example.com'' = ''alice@example.com''"
    and t3: "trim ''bob@example.com'' = ''bob@example.com''"
    and t4: "trim ''alice@example.com'' = ''alice@example.com''"
    by (simp_all add: trim_def is_space_def)
  have l2: "toLowerCase ''alice@example.com'' = ''alice@example.com''"
    and l3: "toLowerCase ''bob@example.com'' = ''bob@example.com''"
    by (simp_all add: toLowerCase_def toLowerChar_def upper_chars_def lower_chars_def)
  have n: "trim ''Bob'' \<noteq> []" and e2: "trim '' alice@example.com'' \<noteq> []"
    and e3: "trim ''bob@example.com'' \<noteq> []"
    unfolding t1 t2 t3 by simp_all
  have r2: "rx_test emailRegex (trim '' alice@example.com'')"
    unfolding t2 by (simp add: emailRegex_def not_space_at_def is_space_def)
  have r3: "rx_test emailRegex (trim ''bob@example.com'')"
    unfolding t3 by (simp add: emailRegex_def not_space_at_def is_space_def)
  have p: "6 \<le> length ''secret1''" by simp
  have f: "env_find_fault sample_env = None" by (simp add: sample_env_def)
  have inv: "\<forall>u\<in>set [alice]. u_email u = toLowerCase (trim (u_email u))"
    by (simp add: alice_def t4 l2)
  have m2: "body_member [(''name'', JStr ''Bob''), (''email'', JStr '' alice@example.com''),
                         (''password'', JStr ''secret1'')] ''name'' = JStr ''Bob''"
    "body_member [(''name'', JStr ''Bob''), (''email'', JStr '' alice@example.com''),
                         (''password'', JStr ''secret1'')] ''email'' = JStr '' alice@example.com''"
    "body_member [(''name'', JStr ''Bob''), (''email'', JStr '' alice@example.com''),
                         (''password'', JStr ''secret1'')] ''password'' = JStr ''secret1''"
    by (simp_all add: body_member_def)
  have m3: "body_member [(''name'', JStr ''Bob''), (''email'', JStr ''bob@example.com''),
                         (''password'', JStr ''secret1'')] ''name'' = JStr ''Bob''"
    "body_member [(''name'', JStr ''Bob''), (''email'', JStr ''bob@example.com''),
                         (''password'', JStr ''secret1'')] ''email'' = JStr ''bob@example.com''"
    "body_member [(''name'', JStr ''Bob''), (''email'', JStr ''bob@example.com''),
                         (''password'', JStr ''secret1'')] ''password'' = JStr ''secret1''"
    by (simp_all add: body_member_def)
  have ex: "\<exists>u\<in>set [alice]. toLowerCase (trim (u_email u)) = toLowerCase (trim '' alice@example.com'')"
    by (simp add: alice_def t2 t4)
  have fresh: "(\<forall>u\<in>set [alice]. toLowerCase (trim (u_email u)) \<noteq> toLowerCase (trim ''bob@example.com''))
            \<and> env_save_fault sample_env = None
            \<and> bcrypt_hash sample_env ''secret1'' (bcrypt_salt sample_env) \<noteq> []
            \<and> signToken (jwt_secret sample_env) (jwt_sign sample_env)
                  \<lparr>tp_id = env_new_id sample_env, tp_email = toLowerCase (trim ''bob@example.com''),
                   tp_name = trim ''Bob''\<rparr>
                = Inr ''jwt.64b000000000000000000002.k''"
    by (simp add: alice_def t3 t4 l2 l3 sample_env_def signToken_def)
  from register_conflict_and_success [OF m2(1) n m2(2) e2 r2 m2(3) p f inv] ex
  have a: "registerUser sample_env
     [(''name'', JStr ''Bob''), (''email'', JStr '' alice@example.com''), (''password'', JStr ''secret1'')]
     [alice]
   = (\<lparr>auth_status = 409, auth_cookie = None,
       auth_body = AuthFailure ''User with this email already exists'' ''USER_ALREADY_EXISTS''\<rparr>,
      [alice])"
    by blast
  from register_conflict_and_success [OF m3(1) n m3(2) e3 r3 m3(3) p f inv, of "''jwt.64b000000000000000000002.k''"] fresh
  have b: "registerUser sample_env
     [(''name'', JStr ''Bob''), (''email'', JStr ''bob@example.com''), (''password'', JStr ''secret1'')]
     [alice]
   = (\<lparr>auth_status = 201, auth_cookie = None,
                auth_body = Registered
                  [(''id'', env_new_id sample_env), (''name'', trim ''Bob''),
                   (''email'', toLowerCase (trim ''bob@example.com'')),
                   (''avatar'', ''https://api.dicebear.com/7.x/initials/svg?seed='' @ trim ''Bob''),
                   (''createdAt'', env_now sample_env)] ''jwt.64b000000000000000000002.k''\<rparr>,
               [alice] @ [\<lparr>u_id = env_new_id sample_env, u_name = trim ''Bob'',
                      u_email = toLowerCase (trim ''bob@example.com''),
                      u_password = bcrypt_hash sample_env ''secret1'' (bcrypt_salt sample_env),
                      u_avatar = ''https://api.dicebear.com/7.x/initials/svg?seed='' @ trim ''Bob'',
                      u_createdAt = env_now sample_env, u_updatedAt = env_now sample_env\<rparr>])"
    by blast
  show ?thesis
    unfolding a b by (simp add: sample_env_def alice_def)
qed

section \<open>Properties of the authentication gate\<close>

text \<open>
  Without an \<open>Authorization\<close> header the gate, as the application runs it, finds no
  token, whatever cookies the request carries and whatever the verifier would say.
\<close>

lemma app_gate_without_header:
  assumes "map_of headers ''authorization'' = None"
  shows "app_authMiddleware fault secret jwt_verify headers us =
           Denied 401 ''Authentication required. Please log in to access this resource.''
             ''NO_TOKEN_PROVIDED''"
  using assms
  by (simp add: app_authMiddleware_def app_request_def authMiddleware_def request_token_def)

text \<open>
  C10. The claim: the gate takes the token from the \<open>Authorization\<close> header with or
  without the \<open>Bearer \<close> prefix, falls back to the \<open>token\<close> cookie when the header
  is absent, and treats the same token alike in the three forms. The code, for the
  token \<open>abc.def.ghi\<close> of the stored user: presented in the header, with the prefix or
  without it, it is verified and the same identity is attached; presented in the cookie
  that login sets, with no header, the request is rejected with 401
  \<open>NO_TOKEN_PROVIDED\<close>, because the application mounts no cookie parser and
  \<open>req.cookies\<close> is never assigned.
\<close>

theorem cookie_token_rejected_in_app:
  "app_authMiddleware None (Some ''k'') sample_verify
     [(''authorization'', ''Bearer abc.def.ghi'')] [alice]
   = Granted \<lparr>id_id = ''64b000000000000000000001'', id_email = ''alice@example.com'',
              id_name = ''Alice'', id_tokenIat = 1700000000, id_tokenExp = 1700604800\<rparr>
   \<and> app_authMiddleware None (Some ''k'') sample_verify
     [(''authorization'', ''abc.def.ghi'')] [alice]
   = Granted \<lparr>id_id = ''64b000000000000000000001'', id_email = ''alice@example.com'',
              id_name = ''Alice'', id_tokenIat = 1700000000, id_tokenExp = 1700604800\<rparr>
   \<and> app_authMiddleware None (Some ''k'') sample_verify
     [(''cookie'', ''token=abc.def.ghi'')] [alice]
   = Denied 401 ''Authentication required. Please log in to access this resource.''
       ''NO_TOKEN_PROVIDED''"
proof -
  have t: "trim ''alice@example.com'' = ''alice@example.com''"
    by (simp add: trim_def is_space_def)
  have l: "toLowerCase ''alice@example.com'' = ''alice@example.com''"
    by (simp add: toLowerCase_def toLowerChar_def upper_chars_def lower_chars_def)
  have r: "rx_test emailRegex ''alice@example.com''"
    by (simp add: emailRegex_def not_space_at_def is_space_def)
  have f: "findUserByEmail None ''alice@example.com'' [alice] = Inr (Some alice)"
    using r by (simp add: findUserByEmail_def t l alice_def)
  have g1: "app_authMiddleware None (Some ''k'') sample_verify
     [(''authorization'', ''Bearer abc.def.ghi'')] [alice]
   = Granted \<lparr>id_id = ''64b000000000000000000001'', id_email = ''alice@example.com'',
              id_name = ''Alice'', id_tokenIat = 1700000000, id_tokenExp = 1700604800\<rparr>"
    by (simp add: app_authMiddleware_def app_request_def authMiddleware_def request_token_def
          verifyToken_def sample_verify_def f)
  have g2: "app_authMiddleware None (Some ''k'') sample_verify
     [(''authorization'', ''abc.def.ghi'')] [alice]
   = Granted \<lparr>id_id = ''64b000000000000000000001'', id_email = ''alice@example.com'',
              id_name = ''Alice'', id_tokenIat = 1700000000, id_tokenExp = 1700604800\<rparr>"
    by (simp add: app_authMiddleware_def app_request_def authMiddleware_def request_token_def
          verifyToken_def sample_verify_def f)
  have g3: "app_authMiddleware None (Some ''k'') sample_verify
     [(''cookie'', ''token=abc.def.ghi'')] [alice]
   = Denied 401 ''Authentication required. Please log in to access this resource.''
       ''NO_TOKEN_PROVIDED''"
    by (rule app_gate_without_header) simp
  show ?thesis unfolding g1 g2 g3 by simp
qed

end
